theory Spec2Isabelle
  imports Main
begin

section \<open>Strings of the JavaScript runtime\<close>

text \<open>
  A JavaScript string is modelled as a \<^typ>\<open>string\<close> that holds the UTF-8 bytes of its
  text, one to four bytes for a character; both URL encoders work on these bytes. White
  space is a matter of characters, so \<^verbatim>\<open>trim\<close> and \<^verbatim>\<open>\s\<close> first cut the bytes into
  characters. \<^verbatim>\<open>toLowerCase\<close> maps A..Z to a..z and leaves every other byte as it is.
\<close>

text \<open>The characters of \<^verbatim>\<open>WhiteSpace\<close> and \<^verbatim>\<open>LineTerminator\<close>, which are those \<^verbatim>\<open>trim\<close> strips
  and \<^verbatim>\<open>\s\<close> matches: U+0009 to U+000D, U+0020, U+00A0, U+1680, U+2000 to U+200A, U+2028,
  U+2029, U+202F, U+205F, U+3000 and U+FEFF.\<close>

definition white_space :: "string list" where
  "white_space =
     [[CHR 0x09], [CHR 0x0A], [CHR 0x0B], [CHR 0x0C], [CHR 0x0D], [CHR 0x20],
      [CHR 0xC2, CHR 0xA0],
      [CHR 0xE1, CHR 0x9A, CHR 0x80],
      [CHR 0xE2, CHR 0x80, CHR 0x80], [CHR 0xE2, CHR 0x80, CHR 0x81],
      [CHR 0xE2, CHR 0x80, CHR 0x82], [CHR 0xE2, CHR 0x80, CHR 0x83],
      [CHR 0xE2, CHR 0x80, CHR 0x84], [CHR 0xE2, CHR 0x80, CHR 0x85],
      [CHR 0xE2, CHR 0x80, CHR 0x86], [CHR 0xE2, CHR 0x80, CHR 0x87],
      [CHR 0xE2, CHR 0x80, CHR 0x88], [CHR 0xE2, CHR 0x80, CHR 0x89],
      [CHR 0xE2, CHR 0x80, CHR 0x8A],
      [CHR 0xE2, CHR 0x80, CHR 0xA8], [CHR 0xE2, CHR 0x80, CHR 0xA9],
      [CHR 0xE2, CHR 0x80, CHR 0xAF],
      [CHR 0xE2, CHR 0x81, CHR 0x9F],
      [CHR 0xE3, CHR 0x80, CHR 0x80],
      [CHR 0xEF, CHR 0xBB, CHR 0xBF]]"

text \<open>A character, given by its bytes, is white space.\<close>

definition js_space :: "string \<Rightarrow> bool" where
  "js_space c = (c \<in> set white_space)"

text \<open>The number of bytes of the character that the byte \<open>c\<close> starts.\<close>

definition utf8_len :: "char \<Rightarrow> nat" where
  "utf8_len c =
     (if of_char c < (0x80::nat) then 1
      else if of_char c < (0xE0::nat) then 2
      else if of_char c < (0xF0::nat) then 3
      else 4)"

text \<open>The characters of a string, each with its bytes.\<close>

fun js_chars :: "string \<Rightarrow> string list" where
  "js_chars [] = []"
| "js_chars (c # cs) = (c # take (utf8_len c - 1) cs) # js_chars (drop (utf8_len c - 1) cs)"

text \<open>
  The bytes \<open>c\<close> are one character: a first byte that is no continuation byte, followed
  by as many continuation bytes as it asks for. A text is a concatenation of such.
\<close>

definition continuation :: "char \<Rightarrow> bool" where
  "continuation c = ((0x80::nat) \<le> of_char c \<and> of_char c < (0xC0::nat))"

definition utf8_char :: "string \<Rightarrow> bool" where
  "utf8_char c =
     (case c of
        [] \<Rightarrow> False
      | b # bs \<Rightarrow> \<not> continuation b \<and> length bs = utf8_len b - 1 \<and> list_all continuation bs)"

text \<open>\<^verbatim>\<open>s.trim()\<close>\<close>

definition trim :: "string \<Rightarrow> string" where
  "trim s = concat (rev (dropWhile js_space (rev (dropWhile js_space (js_chars s)))))"

text \<open>\<^verbatim>\<open>s.replace(/\s+/g, r)\<close>: every maximal run of white space becomes one \<open>r\<close>. The
  first function works on the characters.\<close>

function replace_runs :: "string \<Rightarrow> string list \<Rightarrow> string list" where
  "replace_runs r [] = []"
| "replace_runs r (c # cs) =
     (if js_space c then r # replace_runs r (dropWhile js_space cs) else c # replace_runs r cs)"
  by pat_completeness auto
termination
  by (relation "measure (\<lambda>(r, s). length s)")
     (auto intro: le_imp_less_Suc length_dropWhile_le)

definition replace_ws :: "string \<Rightarrow> string \<Rightarrow> string" where
  "replace_ws r s = concat (replace_runs r (js_chars s))"

text \<open>\<^verbatim>\<open>s.toLowerCase()\<close>\<close>

definition toLowerCase_char :: "char \<Rightarrow> char" where
  "toLowerCase_char c =
     (case map_of (zip ''ABCDEFGHIJKLMNOPQRSTUVWXYZ'' ''abcdefghijklmnopqrstuvwxyz'') c of
        Some l \<Rightarrow> l
      | None \<Rightarrow> c)"

definition toLowerCase :: "string \<Rightarrow> string" where
  "toLowerCase s = map toLowerCase_char s"

text \<open>\<^verbatim>\<open>x || ""\<close> for a value that is a string or \<^verbatim>\<open>undefined\<close> (\<open>None\<close>).\<close>

definition or_empty :: "string option \<Rightarrow> string" where
  "or_empty x = (case x of None \<Rightarrow> [] | Some s \<Rightarrow> s)"

text \<open>Truthiness of a value that is a string or \<^verbatim>\<open>undefined\<close>.\<close>

definition truthy :: "string option \<Rightarrow> bool" where
  "truthy x = (case x of None \<Rightarrow> False | Some s \<Rightarrow> s \<noteq> [])"

text \<open>\<^verbatim>\<open>array.filter(Boolean)\<close> on an array of objects and \<^verbatim>\<open>null\<close>s.\<close>

definition filter_Boolean :: "'a option list \<Rightarrow> 'a list" where
  "filter_Boolean xs = concat (map (\<lambda>x. case x of None \<Rightarrow> [] | Some y \<Rightarrow> [y]) xs)"

section \<open>HTTP replies and loaded documents\<close>

text \<open>
  What the remote side does is an input of the model. A request gets a reply with a
  status and a payload, or none (time-out, connection error). A payload is falsy (the
  empty string), or something \<^verbatim>\<open>cheerio.load\<close> raises on, or markup; markup is given by
  what the selections of the code yield on it.
\<close>

datatype 'd payload = Falsy | Unparsable | Markup 'd

datatype 'd http = Reply nat "'d payload" | NoReply

datatype error =
    AxiosError "nat option"
  | RateLimitReached
  | LoadError

text \<open>
  \<^verbatim>\<open>axios.get(url, {validateStatus})\<close>: the promise is rejected when there is no reply or
  the status is not a valid one.
\<close>

definition axios_get :: "(nat \<Rightarrow> bool) \<Rightarrow> 'd http \<Rightarrow> error + 'd payload" where
  "axios_get validateStatus r =
     (case r of
        NoReply \<Rightarrow> Inl (AxiosError None)
      | Reply status d \<Rightarrow> if validateStatus status then Inr d else Inl (AxiosError (Some status)))"

text \<open>The default of axios: a status of the 2xx range resolves.\<close>

definition validateStatus_default :: "nat \<Rightarrow> bool" where
  "validateStatus_default status = (200 \<le> status \<and> status < 300)"

text \<open>\<^verbatim>\<open>cheerio.load(data)\<close> followed by the selections; \<open>blank\<close> is what they yield on an
  empty document.\<close>

definition cheerio_load :: "'d \<Rightarrow> 'd payload \<Rightarrow> error + 'd" where
  "cheerio_load blank p =
     (case p of Falsy \<Rightarrow> Inr blank | Unparsable \<Rightarrow> Inl LoadError | Markup d \<Rightarrow> Inr d)"

section \<open>Description enricher\<close>

text \<open>
  The detail page as the two selections see it:
  \<^verbatim>\<open>$('.description__text .show-more-less-html').text()\<close> and
  \<^verbatim>\<open>$('.show-more-less-html__markup').text()\<close>.
\<close>

record detail =
  primary_text :: string
  secondary_text :: string

definition no_detail :: detail where
  "no_detail = \<lparr>primary_text = [], secondary_text = []\<rparr>"

definition not_available :: string where
  "not_available = ''Description not available''"

text \<open>The \<^verbatim>\<open>try\<close> block of \<^verbatim>\<open>fetchJobDescription\<close>.\<close>

definition fetchJobDescription_try :: "detail http \<Rightarrow> error + string" where
  "fetchJobDescription_try r =
     (case axios_get validateStatus_default r of
        Inl e \<Rightarrow> Inl e
      | Inr d \<Rightarrow>
          (case cheerio_load no_detail d of
             Inl e \<Rightarrow> Inl e
           | Inr page \<Rightarrow>
               (let description = trim (primary_text page);
                    description = (if description = [] then trim (secondary_text page)
                                   else description)
                in Inr (if description = [] then not_available else description))))"

text \<open>
  \<^verbatim>\<open>fetchJobDescription(jobUrl)\<close>; \<open>web\<close> gives the reply to a GET of a detail page. The
  \<^verbatim>\<open>catch\<close> turns every error of the block into the sentinel.
\<close>

definition fetchJobDescription :: "(string \<Rightarrow> detail http) \<Rightarrow> string \<Rightarrow> error + string" where
  "fetchJobDescription web jobUrl =
     (case fetchJobDescription_try (web jobUrl) of
        Inl e \<Rightarrow> Inr not_available
      | Inr description \<Rightarrow> Inr description)"

section \<open>Listing extractor\<close>

text \<open>One \<^verbatim>\<open>li\<close> of a listing page, as the selections of \<^verbatim>\<open>parseJobList\<close> see it: the
  \<^verbatim>\<open>text()\<close> of a selection, and an \<^verbatim>\<open>attr\<close> that is \<^verbatim>\<open>undefined\<close> when missing.\<close>

record element =
  title_text :: string
  subtitle_text :: string
  location_text :: string
  time_datetime :: "string option"
  salary_text :: string
  link_href :: "string option"
  logo_url :: "string option"
  listdate_text :: string
  snippet_text :: string

record job =
  position :: string
  company :: string
  location :: string
  date :: "string option"
  salary :: string
  jobUrl :: string
  companyLogo :: string
  agoTime :: string
  description :: string

definition salary_or_default :: "string \<Rightarrow> string" where
  "salary_or_default s = (if s = [] then ''Not specified'' else s)"

subsection \<open>The batch pipeline's parser\<close>

text \<open>The object literal an item of the batch parser returns.\<close>

definition job_batch :: "element \<Rightarrow> string \<Rightarrow> job" where
  "job_batch e d =
     \<lparr>position = trim (title_text e),
      company = trim (subtitle_text e),
      location = trim (location_text e),
      date = time_datetime e,
      salary = salary_or_default (replace_ws '' '' (trim (salary_text e))),
      jobUrl = or_empty (link_href e),
      companyLogo = or_empty (logo_url e),
      agoTime = trim (listdate_text e),
      description = d\<rparr>"

text \<open>The description an item gets: fetched when the item has a link.\<close>

definition item_description :: "(string \<Rightarrow> detail http) \<Rightarrow> element \<Rightarrow> error + string" where
  "item_description web e =
     (if truthy (link_href e) then fetchJobDescription web (or_empty (link_href e)) else Inr [])"

text \<open>
  The callback of \<^verbatim>\<open>jobs.map\<close>: \<open>None\<close> is \<^verbatim>\<open>null\<close>. The description is fetched first;
  an error raised in the body is caught and gives \<^verbatim>\<open>null\<close>.
\<close>

definition parseJobList_item :: "(string \<Rightarrow> detail http) \<Rightarrow> element \<Rightarrow> job option" where
  "parseJobList_item web e =
     (case item_description web e of
        Inl err \<Rightarrow> None
      | Inr d \<Rightarrow>
          if trim (title_text e) = [] \<or> trim (subtitle_text e) = [] then None
          else Some (job_batch e d))"

definition parseJobList_batch ::
  "(string \<Rightarrow> detail http) \<Rightarrow> element list payload \<Rightarrow> job list" where
  "parseJobList_batch web jobData =
     (case cheerio_load [] jobData of
        Inl e \<Rightarrow> []
      | Inr jobs \<Rightarrow> filter_Boolean (map (parseJobList_item web) jobs))"

subsection \<open>The simple pipeline's parser\<close>

definition job_simple :: "element \<Rightarrow> job" where
  "job_simple e =
     \<lparr>position = trim (title_text e),
      company = trim (subtitle_text e),
      location = trim (location_text e),
      date = Some (or_empty (time_datetime e)),
      salary = salary_or_default (replace_ws '' '' (trim (salary_text e))),
      jobUrl = or_empty (link_href e),
      companyLogo = or_empty (logo_url e),
      agoTime = trim (listdate_text e),
      description = trim (snippet_text e)\<rparr>"

text \<open>
  The callback of cheerio's \<^verbatim>\<open>map\<close> returns the object literal; nothing in it raises,
  so it never returns \<^verbatim>\<open>null\<close>.
\<close>

definition parseJobList_simple :: "element list payload \<Rightarrow> job list" where
  "parseJobList_simple jobData =
     (case cheerio_load [] jobData of
        Inl e \<Rightarrow> []
      | Inr lis \<Rightarrow> filter_Boolean (map (\<lambda>e. Some (job_simple e)) lis))"

section \<open>Result cache\<close>

text \<open>An entry of the \<^verbatim>\<open>Map\<close>: \<^verbatim>\<open>{ data, timestamp }\<close>. Times are readings of
  \<^verbatim>\<open>Date.now()\<close>, in milliseconds; the caller of the model supplies them.\<close>

record entry =
  data :: "job list"
  timestamp :: int

record JobCache =
  cache :: "string \<rightharpoonup> entry"
  TTL :: int

subsection \<open>The simple pipeline's cache\<close>

definition JobCache_simple :: JobCache where
  "JobCache_simple = \<lparr>cache = Map.empty, TTL = 1000 * 60 * 30\<rparr>"

text \<open>\<^verbatim>\<open>entry && Date.now() - entry.timestamp < this.TTL ? entry.data : null\<close>\<close>

definition get_simple :: "JobCache \<Rightarrow> string \<Rightarrow> int \<Rightarrow> job list option" where
  "get_simple c key now =
     (case cache c key of
        None \<Rightarrow> None
      | Some e \<Rightarrow> if now - timestamp e < TTL c then Some (data e) else None)"

definition set_simple :: "JobCache \<Rightarrow> string \<Rightarrow> job list \<Rightarrow> int \<Rightarrow> JobCache" where
  "set_simple c key v now = c\<lparr>cache := (cache c)(key \<mapsto> \<lparr>data = v, timestamp = now\<rparr>)\<rparr>"

subsection \<open>The batch pipeline's cache\<close>

definition JobCache_batch :: JobCache where
  "JobCache_batch = \<lparr>cache = Map.empty, TTL = 1000 * 60 * 60\<rparr>"

definition set_batch :: "JobCache \<Rightarrow> string \<Rightarrow> job list \<Rightarrow> int \<Rightarrow> JobCache" where
  "set_batch c key v now = c\<lparr>cache := (cache c)(key \<mapsto> \<lparr>data = v, timestamp = now\<rparr>)\<rparr>"

text \<open>\<^verbatim>\<open>get\<close> deletes an entry it finds expired, so it returns the cache as well.\<close>

definition get_batch :: "JobCache \<Rightarrow> string \<Rightarrow> int \<Rightarrow> job list option \<times> JobCache" where
  "get_batch c key now =
     (case cache c key of
        None \<Rightarrow> (None, c)
      | Some item \<Rightarrow>
          if now - timestamp item > TTL c then (None, c\<lparr>cache := (cache c)(key := None)\<rparr>)
          else (Some (data item), c))"

definition clear :: "JobCache \<Rightarrow> int \<Rightarrow> JobCache" where
  "clear c now =
     c\<lparr>cache := (\<lambda>key. case cache c key of
                         None \<Rightarrow> None
                       | Some v \<Rightarrow> if now - timestamp v > TTL c then None else Some v)\<rparr>"

section \<open>Numbers as text, and the two URL encoders\<close>

definition digit :: "nat \<Rightarrow> char" where
  "digit n = ''0123456789'' ! (n mod 10)"

function string_of_nat :: "nat \<Rightarrow> string" where
  "string_of_nat n = (if n < 10 then [digit n] else string_of_nat (n div 10) @ [digit n])"
  by pat_completeness auto
termination
  by (relation "measure (\<lambda>n. n)") auto

declare string_of_nat.simps [simp del]

text \<open>\<^verbatim>\<open>String(n)\<close> for an integer \<open>n\<close> (of the range JavaScript prints in full).\<close>

definition string_of_int :: "int \<Rightarrow> string" where
  "string_of_int i = (if i < 0 then CHR ''-'' # string_of_nat (nat (- i)) else string_of_nat (nat i))"

definition hex_digit :: "nat \<Rightarrow> char" where
  "hex_digit n = ''0123456789ABCDEF'' ! (n mod 16)"

definition percent :: "char \<Rightarrow> string" where
  "percent c = [CHR ''%'', hex_digit (of_char c div 16), hex_digit (of_char c)]"

definition alphanumeric :: "char \<Rightarrow> bool" where
  "alphanumeric c =
     (c \<in> set ''ABCDEFGHIJKLMNOPQRSTUVWXYZabcdefghijklmnopqrstuvwxyz0123456789'')"

text \<open>\<^verbatim>\<open>encodeURIComponent\<close>: all but the unreserved marks and the alphanumerics is escaped.\<close>

definition encodeURIComponent :: "string \<Rightarrow> string" where
  "encodeURIComponent s =
     concat (map (\<lambda>c. if alphanumeric c \<or> c \<in> set (CHR 0x27 # ''-_.!~*()'') then [c]
                       else percent c) s)"

text \<open>
  The serializer of \<^verbatim>\<open>URLSearchParams\<close> (application/x-www-form-urlencoded): a space
  becomes a plus sign, and all but the alphanumerics and \<open>* - . _\<close> is escaped.
\<close>

definition form_urlencode :: "string \<Rightarrow> string" where
  "form_urlencode s =
     concat (map (\<lambda>c. if c = CHR '' '' then ''+''
                       else if alphanumeric c \<or> c \<in> set ''*-._'' then [c]
                       else percent c) s)"

fun join_amp :: "string list \<Rightarrow> string" where
  "join_amp [] = []"
| "join_amp [p] = p"
| "join_amp (p # ps) = p @ ''&'' @ join_amp ps"

text \<open>\<^verbatim>\<open>params.toString()\<close> for the list of appended pairs.\<close>

definition URLSearchParams_toString :: "(string \<times> string) list \<Rightarrow> string" where
  "URLSearchParams_toString params =
     join_amp (map (\<lambda>(name, v). form_urlencode name @ ''='' @ form_urlencode v) params)"

section \<open>Query builder\<close>

text \<open>The object given to \<^verbatim>\<open>Query\<close>: a property that is absent is \<open>None\<close>. The numeric
  properties are integers, of the range in which the numbers of JavaScript are exact.\<close>

record queryObj =
  o_host :: "string option"
  o_keyword :: "string option"
  o_location :: "string option"
  o_dateSincePosted :: "string option"
  o_jobType :: "string option"
  o_remoteFilter :: "string option"
  o_salary :: "string option"
  o_experienceLevel :: "string option"
  o_sortBy :: "string option"
  o_limit :: "int option"
  o_page :: "int option"

record query =
  this_host :: string
  this_keyword :: string
  this_location :: string
  this_dateSincePosted :: string
  this_jobType :: string
  this_remoteFilter :: string
  this_salary :: string
  this_experienceLevel :: string
  this_sortBy :: string
  this_limit :: int
  this_page :: int

text \<open>\<^verbatim>\<open>x?.trim().replace(/\s+/g, "+") || ""\<close>\<close>

definition plus_joined :: "string option \<Rightarrow> string" where
  "plus_joined x = (case x of None \<Rightarrow> [] | Some s \<Rightarrow> replace_ws ''+'' (trim s))"

text \<open>\<^verbatim>\<open>Number(x) || 0\<close>\<close>

definition number_or_0 :: "int option \<Rightarrow> int" where
  "number_or_0 x = (case x of None \<Rightarrow> 0 | Some n \<Rightarrow> n)"

definition Query :: "queryObj \<Rightarrow> query" where
  "Query queryObj =
     \<lparr>this_host = (if truthy (o_host queryObj) then or_empty (o_host queryObj)
                   else ''www.linkedin.com''),
      this_keyword = plus_joined (o_keyword queryObj),
      this_location = plus_joined (o_location queryObj),
      this_dateSincePosted = or_empty (o_dateSincePosted queryObj),
      this_jobType = or_empty (o_jobType queryObj),
      this_remoteFilter = or_empty (o_remoteFilter queryObj),
      this_salary = or_empty (o_salary queryObj),
      this_experienceLevel = or_empty (o_experienceLevel queryObj),
      this_sortBy = or_empty (o_sortBy queryObj),
      this_limit = number_or_0 (o_limit queryObj),
      this_page = number_or_0 (o_page queryObj)\<rparr>"

subsection \<open>Lookup in an object literal\<close>

text \<open>
  A value a lookup can give: a string, or an object that is not a string, kept as the
  text \<^verbatim>\<open>String\<close> gives for it. \<^verbatim>\<open>table[key]\<close> reads the literal's own properties and then
  those it inherits from \<^verbatim>\<open>Object.prototype\<close>; the texts are those of Node.js.
\<close>

datatype jsval = Str string | Obj string

definition native :: "string \<Rightarrow> string" where
  "native name = ''function '' @ name @ ''() { [native code] }''"

definition Object_prototype :: "(string \<times> jsval) list" where
  "Object_prototype =
     [(''constructor'', Obj (native ''Object'')),
      (''__defineGetter__'', Obj (native ''__defineGetter__'')),
      (''__defineSetter__'', Obj (native ''__defineSetter__'')),
      (''hasOwnProperty'', Obj (native ''hasOwnProperty'')),
      (''__lookupGetter__'', Obj (native ''__lookupGetter__'')),
      (''__lookupSetter__'', Obj (native ''__lookupSetter__'')),
      (''isPrototypeOf'', Obj (native ''isPrototypeOf'')),
      (''propertyIsEnumerable'', Obj (native ''propertyIsEnumerable'')),
      (''toString'', Obj (native ''toString'')),
      (''valueOf'', Obj (native ''valueOf'')),
      (''__proto__'', Obj ''[object Object]''),
      (''toLocaleString'', Obj (native ''toLocaleString''))]"

text \<open>\<^verbatim>\<open>table[key] || ""\<close>\<close>

definition lookup_or_empty :: "(string \<times> string) list \<Rightarrow> string \<Rightarrow> jsval" where
  "lookup_or_empty table key =
     (case map_of table key of
        Some v \<Rightarrow> Str v
      | None \<Rightarrow> (case map_of Object_prototype key of Some v \<Rightarrow> v | None \<Rightarrow> Str []))"

definition truthy_val :: "jsval \<Rightarrow> bool" where
  "truthy_val v = (case v of Str s \<Rightarrow> s \<noteq> [] | Obj s \<Rightarrow> True)"

definition String :: "jsval \<Rightarrow> string" where
  "String v = (case v of Str s \<Rightarrow> s | Obj s \<Rightarrow> s)"

subsection \<open>The lookup tables\<close>

definition dateRange :: "(string \<times> string) list" where
  "dateRange = [(''past month'', ''r2592000''), (''past week'', ''r604800''), (''24hr'', ''r86400'')]"

definition getDateSincePosted :: "query \<Rightarrow> jsval" where
  "getDateSincePosted q = lookup_or_empty dateRange (toLowerCase (this_dateSincePosted q))"

definition experienceRange :: "(string \<times> string) list" where
  "experienceRange =
     [(''internship'', ''1''), (''entry level'', ''2''), (''associate'', ''3''),
      (''senior'', ''4''), (''director'', ''5''), (''executive'', ''6'')]"

definition getExperienceLevel :: "query \<Rightarrow> jsval" where
  "getExperienceLevel q = lookup_or_empty experienceRange (toLowerCase (this_experienceLevel q))"

definition jobTypeRange :: "(string \<times> string) list" where
  "jobTypeRange =
     [(''full time'', ''F''), (''full-time'', ''F''), (''part time'', ''P''),
      (''part-time'', ''P''), (''contract'', ''C''), (''temporary'', ''T''),
      (''volunteer'', ''V''), (''internship'', ''I'')]"

definition getJobType :: "query \<Rightarrow> jsval" where
  "getJobType q = lookup_or_empty jobTypeRange (toLowerCase (this_jobType q))"

definition remoteFilterRange :: "(string \<times> string) list" where
  "remoteFilterRange =
     [(''on-site'', ''1''), (''on site'', ''1''), (''remote'', ''2''), (''hybrid'', ''3'')]"

definition getRemoteFilter :: "query \<Rightarrow> jsval" where
  "getRemoteFilter q = lookup_or_empty remoteFilterRange (toLowerCase (this_remoteFilter q))"

definition salaryRange :: "(string \<times> string) list" where
  "salaryRange =
     [(''40000'', ''1''), (''60000'', ''2''), (''80000'', ''3''), (''100000'', ''4''),
      (''120000'', ''5'')]"

definition getSalary :: "query \<Rightarrow> jsval" where
  "getSalary q = lookup_or_empty salaryRange (this_salary q)"

definition getPage :: "query \<Rightarrow> int" where
  "getPage q = this_page q * 25"

subsection \<open>The URL\<close>

text \<open>\<^verbatim>\<open>if (v) params.append(name, v)\<close>\<close>

definition append_if :: "string \<Rightarrow> jsval \<Rightarrow> (string \<times> string) list" where
  "append_if name v = (if truthy_val v then [(name, String v)] else [])"

definition url_params :: "query \<Rightarrow> int \<Rightarrow> (string \<times> string) list" where
  "url_params q start =
     append_if ''keywords'' (Str (this_keyword q)) @
     append_if ''location'' (Str (this_location q)) @
     append_if ''f_TPR'' (getDateSincePosted q) @
     append_if ''f_SB2'' (getSalary q) @
     append_if ''f_E'' (getExperienceLevel q) @
     append_if ''f_WT'' (getRemoteFilter q) @
     append_if ''f_JT'' (getJobType q) @
     [(''start'', string_of_int (start + getPage q))] @
     (if this_sortBy q = ''recent'' then [(''sortBy'', ''DD'')]
      else if this_sortBy q = ''relevant'' then [(''sortBy'', ''R'')]
      else [])"

definition url :: "query \<Rightarrow> int \<Rightarrow> string" where
  "url q start =
     ''https://'' @ this_host q @ ''/jobs-guest/jobs/api/seeMoreJobPostings/search?'' @
     URLSearchParams_toString (url_params q start)"

text \<open>The URL the simple pipeline builds with a template literal.\<close>

definition url_simple :: "string \<Rightarrow> string \<Rightarrow> int \<Rightarrow> string" where
  "url_simple keyword loc start =
     ''https://www.linkedin.com/jobs-guest/jobs/api/seeMoreJobPostings/search?keywords='' @
     encodeURIComponent keyword @ ''&location='' @ encodeURIComponent loc @
     ''&start='' @ string_of_int start"

section \<open>Pagination controller of the batch pipeline\<close>

text \<open>
  \<^verbatim>\<open>fetchJobBatch(start)\<close>, given the reply to the GET of \<^verbatim>\<open>this.url(start)\<close>: only status 200
  is valid; a rejection with status 429 is raised as \<^verbatim>\<open>Error("Rate limit reached")\<close>, any
  other is raised as it is.
\<close>

definition fetchJobBatch ::
  "(string \<Rightarrow> detail http) \<Rightarrow> element list http \<Rightarrow> error + job list" where
  "fetchJobBatch web r =
     (case axios_get (\<lambda>status. status = 200) r of
        Inl e \<Rightarrow> if e = AxiosError (Some 429) then Inl RateLimitReached else Inl e
      | Inr d \<Rightarrow> Inr (parseJobList_batch web d))"

text \<open>\<^verbatim>\<open>xs.slice(0, n)\<close> for an integer \<open>n\<close>: a negative \<open>n\<close> counts from the end.\<close>

definition slice0 :: "'a list \<Rightarrow> int \<Rightarrow> 'a list" where
  "slice0 xs n = (if n < 0 then take (nat (int (length xs) + n)) xs else take (nat n) xs)"

text \<open>
  The variables of the loop of \<^verbatim>\<open>getJobs\<close>, with two logs the model adds: the URLs
  requested and the lengths (ms) of the back-off pauses taken, in order. The pauses of
  random length take no part in the state and are not logged. \<^verbatim>\<open>hasMore\<close> is only set
  where the loop is left, so the model has no variable for it.
\<close>

record crawl =
  allJobs :: "job list"
  start :: int
  consecutiveErrors :: nat
  requested :: "string list"
  backoffs :: "nat list"

definition crawl0 :: crawl where
  "crawl0 = \<lparr>allJobs = [], start = 0, consecutiveErrors = 0, requested = [], backoffs = []\<rparr>"

definition BATCH_SIZE :: int where
  "BATCH_SIZE = 25"

definition MAX_CONSECUTIVE_ERRORS :: nat where
  "MAX_CONSECUTIVE_ERRORS = 3"

text \<open>
  The \<^verbatim>\<open>while\<close> loop. The list holds the replies to the page requests, in the order the
  requests are made; each turn of the loop takes one. \<open>Some\<close> is the state the loop is
  left in; \<open>None\<close> says that the loop is still running when the replies are used up.
\<close>

fun getJobs_loop ::
  "query \<Rightarrow> (string \<Rightarrow> detail http) \<Rightarrow> element list http list \<Rightarrow> crawl \<Rightarrow> crawl option" where
  "getJobs_loop q web [] c = None"
| "getJobs_loop q web (r # rs) c =
     (let c = c\<lparr>requested := requested c @ [url q (start c)]\<rparr> in
      case fetchJobBatch web r of
        Inr jobs \<Rightarrow>
          if jobs = [] then Some c
          else
            let c = c\<lparr>allJobs := allJobs c @ jobs\<rparr> in
            if this_limit q \<noteq> 0 \<and> int (length (allJobs c)) \<ge> this_limit q
            then Some (c\<lparr>allJobs := slice0 (allJobs c) (this_limit q)\<rparr>)
            else getJobs_loop q web rs
                   (c\<lparr>consecutiveErrors := 0, start := start c + BATCH_SIZE\<rparr>)
      | Inl error \<Rightarrow>
          let c = c\<lparr>consecutiveErrors := consecutiveErrors c + 1\<rparr> in
          if consecutiveErrors c \<ge> MAX_CONSECUTIVE_ERRORS then Some c
          else getJobs_loop q web rs
                 (c\<lparr>backoffs := backoffs c @ [2 ^ consecutiveErrors c * 1000]\<rparr>))"

text \<open>
  \<^verbatim>\<open>getJobs\<close>: the shared cache in and out, the reading of the clock at the lookup and
  at the store, and the replies. The result is the returned list, the cache, and the
  state the loop was left in (\<open>crawl0\<close> when the cache answered).
\<close>

definition getJobs ::
  "query \<Rightarrow> (string \<Rightarrow> detail http) \<Rightarrow> JobCache \<Rightarrow> int \<Rightarrow> element list http list \<Rightarrow> int
     \<Rightarrow> (job list \<times> JobCache \<times> crawl) option" where
  "getJobs q web c now rs later =
     (let cacheKey = url q 0;
          (cachedJobs, c) = get_batch c cacheKey now
      in case cachedJobs of
           Some js \<Rightarrow> Some (js, c, crawl0)
         | None \<Rightarrow>
             (case getJobs_loop q web rs crawl0 of
                None \<Rightarrow> None
              | Some l \<Rightarrow>
                  Some (allJobs l,
                        if length (allJobs l) > 0 then set_batch c (url q 0) (allJobs l) later
                        else c,
                        l)))"

section \<open>Pagination controller of the simple pipeline\<close>

text \<open>\<^verbatim>\<open>safeRequest(url)\<close>: \<open>None\<close> is \<^verbatim>\<open>null\<close>, returned for every error.\<close>

definition safeRequest :: "'d http \<Rightarrow> 'd payload option" where
  "safeRequest r =
     (case axios_get validateStatus_default r of Inl e \<Rightarrow> None | Inr d \<Rightarrow> Some d)"

text \<open>
  What a turn of the loop of \<^verbatim>\<open>fetchLinkedInJobs\<close> meets: an error raised in the
  \<^verbatim>\<open>try\<close> block before the request is made (\<^verbatim>\<open>encodeURIComponent\<close> raises on a string
  that is not well-formed, which a \<^typ>\<open>string\<close> cannot show), or the reply to its request.
\<close>

datatype turn = Raised | Replied "element list http"

record crawl_simple =
  jobs :: "job list"
  start_simple :: int
  attempts :: nat
  requested_simple :: "string list"
  backoffs_simple :: "nat list"

definition crawl_simple0 :: crawl_simple where
  "crawl_simple0 =
     \<lparr>jobs = [], start_simple = 0, attempts = 0, requested_simple = [], backoffs_simple = []\<rparr>"

fun fetchLinkedInJobs_loop ::
  "string \<Rightarrow> string \<Rightarrow> turn list \<Rightarrow> crawl_simple \<Rightarrow> crawl_simple option" where
  "fetchLinkedInJobs_loop keyword loc [] s = (if attempts s < 5 then None else Some s)"
| "fetchLinkedInJobs_loop keyword loc (t # ts) s =
     (if \<not> attempts s < 5 then Some s
      else case t of
        Raised \<Rightarrow>
          let s = s\<lparr>attempts := attempts s + 1\<rparr> in
          fetchLinkedInJobs_loop keyword loc ts
            (s\<lparr>backoffs_simple := backoffs_simple s @ [5000 * attempts s]\<rparr>)
      | Replied r \<Rightarrow>
          let s = s\<lparr>requested_simple :=
                      requested_simple s @ [url_simple keyword loc (start_simple s)]\<rparr> in
          (case safeRequest r of
             None \<Rightarrow> Some s
           | Some Falsy \<Rightarrow> Some s
           | Some d \<Rightarrow>
               let newJobs = parseJobList_simple d in
               if length newJobs = 0 then Some s
               else fetchLinkedInJobs_loop keyword loc ts
                      (s\<lparr>jobs := jobs s @ newJobs, start_simple := start_simple s + 25,
                         attempts := 0\<rparr>)))"

definition fetchLinkedInJobs :: "string \<Rightarrow> string \<Rightarrow> turn list \<Rightarrow> job list option" where
  "fetchLinkedInJobs keyword loc ts =
     map_option jobs (fetchLinkedInJobs_loop keyword loc ts crawl_simple0)"

section \<open>Inputs used in the examples\<close>

text \<open>A remote side that answers no detail request.\<close>

definition offline :: "string \<Rightarrow> detail http" where
  "offline u = NoReply"

text \<open>A list item with the given title and subtitle texts and nothing else.\<close>

definition li :: "string \<Rightarrow> string \<Rightarrow> element" where
  "li t s =
     \<lparr>title_text = t, subtitle_text = s, location_text = [], time_datetime = None,
      salary_text = [], link_href = None, logo_url = None, listdate_text = [],
      snippet_text = []\<rparr>"

text \<open>A query object with at most a keyword and a location.\<close>

definition only :: "string option \<Rightarrow> string option \<Rightarrow> queryObj" where
  "only k l =
     \<lparr>o_host = None, o_keyword = k, o_location = l, o_dateSincePosted = None,
      o_jobType = None, o_remoteFilter = None, o_salary = None, o_experienceLevel = None,
      o_sortBy = None, o_limit = None, o_page = None\<rparr>"

text \<open>A remote side with four detail pages.\<close>

definition detail_web :: "string \<Rightarrow> detail http" where
  "detail_web u =
     (if u = ''a'' then Reply 200 (Markup \<lparr>primary_text = [CHR 0xC2, CHR 0xA0, CHR '' ''],
                                            secondary_text = [CHR 0x0A]\<rparr>)
      else if u = ''b'' then Reply 404 (Markup \<lparr>primary_text = ''About the job'', secondary_text = []\<rparr>)
      else if u = ''c'' then Reply 200 Unparsable
      else if u = ''d'' then Reply 200 (Markup \<lparr>primary_text = '' '', secondary_text = '' About the job ''\<rparr>)
      else NoReply)"

section \<open>Properties\<close>

subsection \<open>Listing extractor\<close>

lemma filter_Boolean_Some: "filter_Boolean (map (\<lambda>x. Some (f x)) xs) = map f xs"
  by (induction xs) (simp_all add: filter_Boolean_def)

lemma fetchJobDescription_returns: "\<exists>d. fetchJobDescription web u = Inr d"
  by (simp add: fetchJobDescription_def split: sum.split)

lemma item_description_returns: "\<exists>d. item_description web e = Inr d"
  using fetchJobDescription_returns by (simp add: item_description_def)

lemma parseJobList_item_eq:
  "parseJobList_item web e =
     (if trim (title_text e) \<noteq> [] \<and> trim (subtitle_text e) \<noteq> []
      then Some (job_batch e (projr (item_description web e))) else None)"
proof -
  obtain d where "item_description web e = Inr d"
    using item_description_returns by blast
  then show ?thesis by (simp add: parseJobList_item_def)
qed

lemma filter_Boolean_if:
  "filter_Boolean (map (\<lambda>x. if P x then Some (f x) else None) xs) = map f (filter P xs)"
  by (induction xs) (simp_all add: filter_Boolean_def)

lemma parseJobList_batch_filter:
  "parseJobList_batch web (Markup lis) =
     map (\<lambda>e. job_batch e (projr (item_description web e)))
       (filter (\<lambda>e. trim (title_text e) \<noteq> [] \<and> trim (subtitle_text e) \<noteq> []) lis)"
proof -
  have "parseJobList_item web =
        (\<lambda>e. if trim (title_text e) \<noteq> [] \<and> trim (subtitle_text e) \<noteq> []
             then Some (job_batch e (projr (item_description web e))) else None)"
    by (rule ext) (rule parseJobList_item_eq)
  then show ?thesis
    by (simp add: parseJobList_batch_def cheerio_load_def filter_Boolean_if)
qed

lemma parseJobList_simple_Markup: "parseJobList_simple (Markup lis) = map job_simple lis"
  by (simp add: parseJobList_simple_def cheerio_load_def filter_Boolean_Some)

text \<open>
  Claim C1, as the code has it. The batch parser drops an item exactly when its trimmed
  title (position) is empty or its trimmed subtitle (company) is empty, and keeps the
  others in order, each with the description fetched for it; the simple parser drops no
  item, whatever its texts.
\<close>

theorem parseJobList_exclusion:
  "parseJobList_batch web (Markup lis) =
     map (\<lambda>e. job_batch e (projr (item_description web e)))
       (filter (\<lambda>e. trim (title_text e) \<noteq> [] \<and> trim (subtitle_text e) \<noteq> []) lis)
   \<and> (parseJobList_item web e = None \<longleftrightarrow>
        trim (title_text e) = [] \<or> trim (subtitle_text e) = [])
   \<and> parseJobList_simple (Markup lis) = map job_simple lis"
proof -
  have "parseJobList_item web e = None \<longleftrightarrow>
        trim (title_text e) = [] \<or> trim (subtitle_text e) = []"
    by (simp add: parseJobList_item_eq)
  then show ?thesis
    by (simp only: parseJobList_batch_filter parseJobList_simple_Markup simp_thms)
qed

theorem parseJobList_exclusion_witness:
  "parseJobList_batch offline (Markup [li [] [], li ''Engineer'' [], li [CHR 0xC2, CHR 0xA0] ''ACME'', li ''Engineer'' ''ACME''])
     = [job_batch (li ''Engineer'' ''ACME'') []]
   \<and> parseJobList_simple (Markup [li [] [], li ''Engineer'' []])
     = [job_simple (li [] []), job_simple (li ''Engineer'' [])]"
  using parseJobList_exclusion [of offline "[li [] [], li ''Engineer'' [], li [CHR 0xC2, CHR 0xA0] ''ACME'', li ''Engineer'' ''ACME'']"]
    parseJobList_exclusion [of offline "[li [] [], li ''Engineer'' []]"]
  by (simp add: li_def trim_def js_space_def white_space_def utf8_len_def
      item_description_def truthy_def)

text \<open>
  Claim C1 as stated fails twice: the batch parser drops an item that has a position and
  no company, and the simple parser keeps an item that has neither.
\<close>

theorem parseJobList_exclusion_counterexample:
  "trim (title_text (li ''Engineer'' [])) \<noteq> [] \<and> trim (subtitle_text (li ''Engineer'' [])) = []
   \<and> parseJobList_batch offline (Markup [li ''Engineer'' []]) = []
   \<and> trim (title_text (li [] [])) = [] \<and> trim (subtitle_text (li [] [])) = []
   \<and> parseJobList_simple (Markup [li [] []]) = [job_simple (li [] [])]"
  by (simp add: li_def trim_def js_space_def white_space_def utf8_len_def parseJobList_batch_def parseJobList_simple_def
      cheerio_load_def filter_Boolean_def parseJobList_item_def item_description_def truthy_def)

subsection \<open>Keyword and location in the URL\<close>

lemma js_chars_char: "utf8_char c \<Longrightarrow> js_chars (c @ rest) = c # js_chars rest"
  by (cases c) (simp_all add: utf8_char_def)

lemma js_chars_concat: "\<forall>c\<in>set cs. utf8_char c \<Longrightarrow> js_chars (concat cs) = cs"
  by (induction cs) (simp_all add: js_chars_char)

lemma space_utf8: "js_space c \<Longrightarrow> utf8_char c"
proof -
  have "\<forall>c\<in>set white_space. utf8_char c"
    by (simp add: white_space_def utf8_char_def continuation_def utf8_len_def)
  then show "js_space c \<Longrightarrow> utf8_char c" by (simp add: js_space_def)
qed

lemma plus_char: "utf8_char ''+''" "\<not> js_space ''+''"
  by (simp_all add: utf8_char_def continuation_def utf8_len_def js_space_def white_space_def)

lemma replace_runs_no_space:
  "\<forall>c\<in>set u. \<not> js_space c \<Longrightarrow> replace_runs r (u @ s) = u @ replace_runs r s"
  by (induction u) simp_all

lemma dropWhile_spaces: "\<forall>c\<in>set g. js_space c \<Longrightarrow> dropWhile js_space (g @ s) = dropWhile js_space s"
  by (rule dropWhile_append2) auto

lemma dropWhile_stop: "s \<noteq> [] \<Longrightarrow> \<not> js_space (hd s) \<Longrightarrow> dropWhile js_space s = s"
  by (cases s) simp_all

lemma replace_runs_gap:
  assumes "\<forall>c\<in>set g. js_space c" "g \<noteq> []" "w \<noteq> []" "\<forall>c\<in>set w. \<not> js_space c"
  shows "replace_runs r (g @ w @ s) = r # w @ replace_runs r s"
proof -
  obtain c g' where g: "g = c # g'" using assms(2) by (cases g) auto
  have "dropWhile js_space (g' @ w @ s) = dropWhile js_space (w @ s)"
    using assms(1) g by (simp add: dropWhile_spaces)
  also have "\<dots> = w @ s"
    using assms(3,4) by (intro dropWhile_stop) (cases w; simp)+
  finally have "replace_runs r (g @ w @ s) = r # replace_runs r (w @ s)"
    using assms(1) g by simp
  then show ?thesis using assms(4) by (simp add: replace_runs_no_space)
qed

lemma replace_runs_words:
  assumes "\<forall>(g, w)\<in>set gws. g \<noteq> [] \<and> (\<forall>c\<in>set g. js_space c) \<and> w \<noteq> [] \<and>
             (\<forall>c\<in>set w. utf8_char c \<and> \<not> js_space c)"
  shows "replace_runs r (concat (map (\<lambda>(g, w). g @ w) gws)) = concat (map (\<lambda>(g, w). r # w) gws)"
  using assms
proof (induction gws)
  case Nil
  then show ?case by simp
next
  case (Cons gw gws)
  obtain g w where gw: "gw = (g, w)" by (cases gw)
  have "replace_runs r (g @ w @ concat (map (\<lambda>(g, w). g @ w) gws)) =
        r # w @ replace_runs r (concat (map (\<lambda>(g, w). g @ w) gws))"
    by (rule replace_runs_gap) (use Cons.prems gw in auto)
  then show ?case using Cons gw by simp
qed

lemma words_end:
  assumes "w0 \<noteq> []" "\<forall>c\<in>set w0. \<not> js_space c"
    "\<forall>(g, w)\<in>set gws. g \<noteq> [] \<and> (\<forall>c\<in>set g. js_space c) \<and> w \<noteq> [] \<and>
             (\<forall>c\<in>set w. utf8_char c \<and> \<not> js_space c)"
  shows "\<not> js_space (last (w0 @ concat (map (\<lambda>(g, w). g @ w) gws)))"
  using assms(3)
proof (induction gws rule: rev_induct)
  case Nil
  then show ?case using assms(1,2) by simp
next
  case (snoc gw gws)
  obtain g w where gw: "gw = (g, w)" by (cases gw)
  then have "w \<noteq> []" "\<forall>c\<in>set w. \<not> js_space c" using snoc.prems by auto
  then show ?case using gw by (simp add: last_append)
qed

lemma trim_chars:
  assumes "\<forall>c\<in>set lead. js_space c" "\<forall>c\<in>set trail. js_space c"
    "xs \<noteq> []" "\<not> js_space (hd xs)" "\<not> js_space (last xs)"
  shows "rev (dropWhile js_space (rev (dropWhile js_space (lead @ xs @ trail)))) = xs"
proof -
  have 1: "dropWhile js_space (lead @ xs @ trail) = xs @ trail"
    using assms(1,3,4) by (simp add: dropWhile_spaces dropWhile_stop)
  have "dropWhile js_space (rev trail @ rev xs) = dropWhile js_space (rev xs)"
    by (rule dropWhile_spaces) (use assms(2) in simp)
  also have "\<dots> = rev xs"
    by (rule dropWhile_stop) (use assms(3,5) in \<open>simp_all add: hd_rev\<close>)
  finally show ?thesis by (simp add: 1)
qed

lemma trim_blank:
  assumes "\<forall>c\<in>set lead. js_space c"
  shows "dropWhile js_space lead = []"
  using assms by (induction lead) simp_all

lemma trim_concat:
  "\<forall>c\<in>set cs. utf8_char c \<Longrightarrow>
   trim (concat cs) = concat (rev (dropWhile js_space (rev (dropWhile js_space cs))))"
  by (simp add: trim_def js_chars_concat)

lemma replace_runs_clean:
  "\<not> js_space r \<Longrightarrow> \<forall>c\<in>set (replace_runs r s). \<not> js_space c"
proof (induction r s rule: replace_runs.induct)
  case (1 r)
  then show ?case by simp
next
  case (2 r c cs)
  show ?case
  proof (cases "js_space c")
    case True
    then have "\<forall>c\<in>set (replace_runs r (dropWhile js_space cs)). \<not> js_space c"
      using "2.IH"(1) "2.prems" by blast
    then show ?thesis using True "2.prems" by simp
  next
    case False
    then have "\<forall>c\<in>set (replace_runs r cs). \<not> js_space c"
      using "2.IH"(2) "2.prems" by blast
    then show ?thesis using False by simp
  qed
qed

lemma replace_runs_utf8:
  "utf8_char r \<Longrightarrow> \<forall>c\<in>set s. utf8_char c \<Longrightarrow> \<forall>c\<in>set (replace_runs r s). utf8_char c"
proof (induction r s rule: replace_runs.induct)
  case (1 r)
  then show ?case by simp
next
  case (2 r c cs)
  show ?case
  proof (cases "js_space c")
    case True
    have "\<forall>c\<in>set (dropWhile js_space cs). utf8_char c"
      using "2.prems"(2) set_dropWhileD by fastforce
    then have "\<forall>c\<in>set (replace_runs r (dropWhile js_space cs)). utf8_char c"
      using "2.IH"(1) True "2.prems"(1) by blast
    then show ?thesis using True "2.prems" by simp
  next
    case False
    then have "\<forall>c\<in>set (replace_runs r cs). utf8_char c"
      using "2.IH"(2) "2.prems" by simp
    then show ?thesis using False "2.prems" by simp
  qed
qed

lemma set_trimmed: "set (rev (dropWhile P (rev (dropWhile P cs)))) \<subseteq> set cs"
proof -
  have "set (dropWhile P (rev (dropWhile P cs))) \<subseteq> set (rev (dropWhile P cs))"
    using set_dropWhileD by fastforce
  moreover have "set (dropWhile P cs) \<subseteq> set cs" using set_dropWhileD by fastforce
  ultimately show ?thesis by auto
qed

lemma plus_joined_text:
  assumes "\<forall>c\<in>set cs. utf8_char c"
  shows "plus_joined (Some (concat cs)) =
         concat (replace_runs ''+'' (rev (dropWhile js_space (rev (dropWhile js_space cs)))))"
proof -
  let ?t = "rev (dropWhile js_space (rev (dropWhile js_space cs)))"
  have "\<forall>c\<in>set ?t. utf8_char c" using assms set_trimmed [of js_space cs] by blast
  then have "js_chars (concat ?t) = ?t" by (rule js_chars_concat)
  then show ?thesis using assms by (simp add: plus_joined_def trim_concat replace_ws_def)
qed

lemma plus_joined_clean:
  assumes "\<forall>c\<in>set cs. utf8_char c"
  shows "\<exists>cs'. plus_joined (Some (concat cs)) = concat cs' \<and>
               (\<forall>c\<in>set cs'. utf8_char c \<and> \<not> js_space c)"
proof -
  let ?t = "rev (dropWhile js_space (rev (dropWhile js_space cs)))"
  have t: "\<forall>c\<in>set ?t. utf8_char c" using assms set_trimmed [of js_space cs] by blast
  have "\<forall>c\<in>set (replace_runs ''+'' ?t). utf8_char c"
    using plus_char(1) t by (rule replace_runs_utf8)
  moreover have "\<forall>c\<in>set (replace_runs ''+'' ?t). \<not> js_space c"
    using plus_char(2) by (rule replace_runs_clean)
  ultimately show ?thesis using plus_joined_text [OF assms] by blast
qed

lemma plus_joined_blank:
  assumes "\<forall>c\<in>set lead. js_space c"
  shows "plus_joined (Some (concat lead)) = []"
proof -
  have "\<forall>c\<in>set lead. utf8_char c" using assms space_utf8 by blast
  then have "plus_joined (Some (concat lead)) =
         concat (replace_runs ''+'' (rev (dropWhile js_space (rev (dropWhile js_space lead)))))"
    by (rule plus_joined_text)
  then show ?thesis unfolding trim_blank [OF assms] by simp
qed

lemma plus_joined_words:
  assumes "\<forall>c\<in>set lead. js_space c" "\<forall>c\<in>set trail. js_space c"
    "w0 \<noteq> []" "\<forall>c\<in>set w0. utf8_char c \<and> \<not> js_space c"
    "\<forall>(g, w)\<in>set gws. g \<noteq> [] \<and> (\<forall>c\<in>set g. js_space c) \<and> w \<noteq> [] \<and>
             (\<forall>c\<in>set w. utf8_char c \<and> \<not> js_space c)"
  shows "plus_joined (Some (concat (lead @ w0 @ concat (map (\<lambda>(g, w). g @ w) gws) @ trail))) =
         concat (w0 @ concat (map (\<lambda>(g, w). ''+'' # w) gws))"
proof -
  let ?body = "concat (map (\<lambda>(g, w). g @ w) gws)"
  let ?xs = "w0 @ ?body"
  have wf_body: "\<forall>c\<in>set ?body. utf8_char c"
    using assms(5) space_utf8 by fastforce
  have wf: "\<forall>c\<in>set (lead @ ?xs @ trail). utf8_char c"
    using assms(1,2,4) wf_body space_utf8 by auto
  have ne: "?xs \<noteq> []" using assms(3) by simp
  have h: "\<not> js_space (hd ?xs)" using assms(3,4) by (cases w0) auto
  have l: "\<not> js_space (last ?xs)"
    by (rule words_end) (use assms in auto)
  have "rev (dropWhile js_space (rev (dropWhile js_space (lead @ ?xs @ trail)))) = ?xs"
    using assms(1,2) ne h l by (rule trim_chars)
  then have "plus_joined (Some (concat (lead @ ?xs @ trail))) = concat (replace_runs ''+'' ?xs)"
    using plus_joined_text [OF wf] by (simp only:)
  also have "replace_runs ''+'' ?xs = w0 @ replace_runs ''+'' ?body"
    by (rule replace_runs_no_space) (use assms(4) in auto)
  also have "replace_runs ''+'' ?body = concat (map (\<lambda>(g, w). ''+'' # w) gws)"
    using assms(5) by (rule replace_runs_words)
  finally show ?thesis by simp
qed

lemma encodeURIComponent_append: "encodeURIComponent (a @ b) = encodeURIComponent a @ encodeURIComponent b"
  by (simp add: encodeURIComponent_def)

lemma encodeURIComponent_space: "encodeURIComponent '' '' = ''%20''"
  by (simp add: encodeURIComponent_def alphanumeric_def percent_def hex_digit_def)

lemma getters_only:
  "getDateSincePosted (Query (only k l)) = Str []"
  "getSalary (Query (only k l)) = Str []"
  "getExperienceLevel (Query (only k l)) = Str []"
  "getRemoteFilter (Query (only k l)) = Str []"
  "getJobType (Query (only k l)) = Str []"
  by (simp_all add: getDateSincePosted_def getSalary_def getExperienceLevel_def
      getRemoteFilter_def getJobType_def Query_def only_def or_empty_def toLowerCase_def
      lookup_or_empty_def dateRange_def salaryRange_def experienceRange_def
      remoteFilterRange_def jobTypeRange_def Object_prototype_def)

lemma fields_only:
  "this_keyword (Query (only k l)) = plus_joined k" "this_location (Query (only k l)) = plus_joined l"
    "this_sortBy (Query (only k l)) = []" "getPage (Query (only k l)) = 0"
    "this_host (Query (only k l)) = ''www.linkedin.com''"
    by (simp_all add: Query_def only_def or_empty_def getPage_def number_or_0_def truthy_def)

lemma append_if_empty: "append_if name (Str []) = []"
  by (simp add: append_if_def truthy_val_def)

lemma url_params_only:
  "url_params (Query (only k l)) n =
     append_if ''keywords'' (Str (plus_joined k)) @ append_if ''location'' (Str (plus_joined l)) @
     [(''start'', string_of_int n)]"
  unfolding url_params_def getters_only fields_only append_if_empty by simp

lemma getters_without:
  "getDateSincePosted (Query (obj\<lparr>o_keyword := k, o_location := l\<rparr>)) = getDateSincePosted (Query obj)"
  "getSalary (Query (obj\<lparr>o_keyword := k, o_location := l\<rparr>)) = getSalary (Query obj)"
  "getExperienceLevel (Query (obj\<lparr>o_keyword := k, o_location := l\<rparr>)) = getExperienceLevel (Query obj)"
  "getRemoteFilter (Query (obj\<lparr>o_keyword := k, o_location := l\<rparr>)) = getRemoteFilter (Query obj)"
  "getJobType (Query (obj\<lparr>o_keyword := k, o_location := l\<rparr>)) = getJobType (Query obj)"
  "getPage (Query (obj\<lparr>o_keyword := k, o_location := l\<rparr>)) = getPage (Query obj)"
  "this_sortBy (Query (obj\<lparr>o_keyword := k, o_location := l\<rparr>)) = this_sortBy (Query obj)"
  "this_keyword (Query (obj\<lparr>o_keyword := k, o_location := l\<rparr>)) = plus_joined k"
  "this_location (Query (obj\<lparr>o_keyword := k, o_location := l\<rparr>)) = plus_joined l"
  by (simp_all add: getDateSincePosted_def getSalary_def getExperienceLevel_def
      getRemoteFilter_def getJobType_def getPage_def Query_def)

lemma append_if_Str:
  "append_if name (Str s) = (if s = [] then [] else [(name, s)])"
  by (simp add: append_if_def truthy_val_def String_def)

lemma url_params_split:
  "url_params (Query obj) n =
     (if plus_joined (o_keyword obj) = [] then []
      else [(''keywords'', plus_joined (o_keyword obj))]) @
     (if plus_joined (o_location obj) = [] then []
      else [(''location'', plus_joined (o_location obj))]) @
     url_params (Query (obj\<lparr>o_keyword := None, o_location := None\<rparr>)) n"
proof -
  have k: "this_keyword (Query obj) = plus_joined (o_keyword obj)"
    "this_location (Query obj) = plus_joined (o_location obj)"
    by (simp_all add: Query_def)
  have n: "plus_joined None = []" by (simp add: plus_joined_def)
  show ?thesis
    unfolding url_params_def getters_without k n append_if_Str by simp
qed

text \<open>
  Claim C2, as the code has it. \<^verbatim>\<open>Query\<close> trims keyword and location and puts one plus
  sign for every run of white space: a text of words with white space between and around
  them becomes the words joined by plus signs, a text of white space only becomes empty,
  and no text keeps a white space character. These values are what \<^verbatim>\<open>url\<close> appends as
  the parameters \<^verbatim>\<open>keywords\<close> and \<^verbatim>\<open>location\<close>, before the parameters of the other
  fields, and an empty one is left out. The simple pipeline passes both fields through
  \<^verbatim>\<open>encodeURIComponent\<close> as they are, where a space is \<^verbatim>\<open>%20\<close>.
\<close>

theorem whitespace_becomes_plus:
  "this_keyword (Query obj) = plus_joined (o_keyword obj)
   \<and> this_location (Query obj) = plus_joined (o_location obj)
   \<and> url_params (Query obj) n =
       (if plus_joined (o_keyword obj) = [] then []
        else [(''keywords'', plus_joined (o_keyword obj))]) @
       (if plus_joined (o_location obj) = [] then []
        else [(''location'', plus_joined (o_location obj))]) @
       url_params (Query (obj\<lparr>o_keyword := None, o_location := None\<rparr>)) n
   \<and> url (Query obj) n =
       ''https://'' @ this_host (Query obj) @
       ''/jobs-guest/jobs/api/seeMoreJobPostings/search?'' @
       URLSearchParams_toString (url_params (Query obj) n)
   \<and> plus_joined None = []
   \<and> ((\<forall>c\<in>set lead. js_space c) \<longrightarrow> plus_joined (Some (concat lead)) = [])
   \<and> ((\<forall>c\<in>set lead. js_space c) \<and> (\<forall>c\<in>set trail. js_space c) \<and>
       w0 \<noteq> [] \<and> (\<forall>c\<in>set w0. utf8_char c \<and> \<not> js_space c) \<and>
       (\<forall>(g, w)\<in>set gws. g \<noteq> [] \<and> (\<forall>c\<in>set g. js_space c) \<and> w \<noteq> [] \<and>
          (\<forall>c\<in>set w. utf8_char c \<and> \<not> js_space c)) \<longrightarrow>
       plus_joined (Some (concat (lead @ w0 @ concat (map (\<lambda>(g, w). g @ w) gws) @ trail))) =
       concat (w0 @ concat (map (\<lambda>(g, w). ''+'' # w) gws)))
   \<and> ((\<forall>c\<in>set cs. utf8_char c) \<longrightarrow>
       (\<exists>cs'. plus_joined (Some (concat cs)) = concat cs' \<and>
              (\<forall>c\<in>set cs'. utf8_char c \<and> \<not> js_space c)))
   \<and> url_simple (a @ '' '' @ b) l n =
       ''https://www.linkedin.com/jobs-guest/jobs/api/seeMoreJobPostings/search?keywords='' @
       encodeURIComponent a @ ''%20'' @ encodeURIComponent b @ ''&location='' @
       encodeURIComponent l @ ''&start='' @ string_of_int n"
proof (intro conjI impI)
  show "this_keyword (Query obj) = plus_joined (o_keyword obj)"
    "this_location (Query obj) = plus_joined (o_location obj)"
    by (simp_all add: Query_def)
  show "url_params (Query obj) n =
       (if plus_joined (o_keyword obj) = [] then []
        else [(''keywords'', plus_joined (o_keyword obj))]) @
       (if plus_joined (o_location obj) = [] then []
        else [(''location'', plus_joined (o_location obj))]) @
       url_params (Query (obj\<lparr>o_keyword := None, o_location := None\<rparr>)) n"
    by (rule url_params_split)
  show "url (Query obj) n =
       ''https://'' @ this_host (Query obj) @
       ''/jobs-guest/jobs/api/seeMoreJobPostings/search?'' @
       URLSearchParams_toString (url_params (Query obj) n)"
    by (simp add: url_def)
  show "plus_joined None = []" by (simp add: plus_joined_def)
  show "url_simple (a @ '' '' @ b) l n =
       ''https://www.linkedin.com/jobs-guest/jobs/api/seeMoreJobPostings/search?keywords='' @
       encodeURIComponent a @ ''%20'' @ encodeURIComponent b @ ''&location='' @
       encodeURIComponent l @ ''&start='' @ string_of_int n"
    unfolding url_simple_def encodeURIComponent_append encodeURIComponent_space by simp
next
  assume "\<forall>c\<in>set lead. js_space c"
  then show "plus_joined (Some (concat lead)) = []" by (rule plus_joined_blank)
next
  assume "(\<forall>c\<in>set lead. js_space c) \<and> (\<forall>c\<in>set trail. js_space c) \<and>
       w0 \<noteq> [] \<and> (\<forall>c\<in>set w0. utf8_char c \<and> \<not> js_space c) \<and>
       (\<forall>(g, w)\<in>set gws. g \<noteq> [] \<and> (\<forall>c\<in>set g. js_space c) \<and> w \<noteq> [] \<and>
          (\<forall>c\<in>set w. utf8_char c \<and> \<not> js_space c))"
  then show "plus_joined (Some (concat (lead @ w0 @ concat (map (\<lambda>(g, w). g @ w) gws) @ trail))) =
       concat (w0 @ concat (map (\<lambda>(g, w). ''+'' # w) gws))"
    by (intro plus_joined_words) blast+
next
  assume "\<forall>c\<in>set cs. utf8_char c"
  then show "\<exists>cs'. plus_joined (Some (concat cs)) = concat cs' \<and>
              (\<forall>c\<in>set cs'. utf8_char c \<and> \<not> js_space c)"
    by (rule plus_joined_clean)
qed

theorem whitespace_becomes_plus_witness:
  "plus_joined (Some ('' mechanical'' @ [CHR 0x09, CHR 0xC2, CHR 0xA0] @ ''engineer  jobs '')) =
     ''mechanical+engineer+jobs''
   \<and> url_params (Query (only (Some ('' mechanical'' @ [CHR 0x09, CHR 0xC2, CHR 0xA0] @
                                     ''engineer  jobs ''))
                             (Some ([CHR 0xC2, CHR 0xA0] @ ''  ''))))
        50 =
     [(''keywords'', ''mechanical+engineer+jobs''), (''start'', ''50'')]
   \<and> url_simple (''New'' @ '' '' @ ''York'') ''NY'' 25 =
       ''https://www.linkedin.com/jobs-guest/jobs/api/seeMoreJobPostings/search?keywords=New%20York&location=NY&start=25''"
proof -
  let ?k = "'' mechanical'' @ [CHR 0x09, CHR 0xC2, CHR 0xA0] @ ''engineer  jobs ''"
  let ?l = "[CHR 0xC2, CHR 0xA0] @ ''  ''"
  let ?lead = "['' '']"
  let ?w0 = "js_chars ''mechanical''"
  let ?gws = "[([[CHR 0x09], [CHR 0xC2, CHR 0xA0]], js_chars ''engineer''),
               (['' '', '' ''], js_chars ''jobs'')]"
  have h: "(\<forall>c\<in>set ?lead. js_space c) \<and> (\<forall>c\<in>set ?lead. js_space c) \<and>
       ?w0 \<noteq> [] \<and> (\<forall>c\<in>set ?w0. utf8_char c \<and> \<not> js_space c) \<and>
       (\<forall>(g, w)\<in>set ?gws. g \<noteq> [] \<and> (\<forall>c\<in>set g. js_space c) \<and> w \<noteq> [] \<and>
          (\<forall>c\<in>set w. utf8_char c \<and> \<not> js_space c))"
    by (simp add: js_space_def white_space_def utf8_len_def utf8_char_def continuation_def)
  have b: "\<forall>c\<in>set [[CHR 0xC2, CHR 0xA0], '' '', '' '']. js_space c"
    by (simp add: js_space_def white_space_def)
  have e: "encodeURIComponent ''New'' = ''New''" "encodeURIComponent ''York'' = ''York''"
    "encodeURIComponent ''NY'' = ''NY''"
    by (simp_all add: encodeURIComponent_def alphanumeric_def)
  have n: "string_of_int 50 = ''50''" "string_of_int 25 = ''25''"
    by (simp_all add: string_of_int_def string_of_nat.simps digit_def)
  have k: "plus_joined (Some ?k) = ''mechanical+engineer+jobs''"
    using whitespace_becomes_plus [where lead = ?lead and trail = ?lead and ?w0.0 = ?w0
        and gws = ?gws] h
    by (simp add: utf8_len_def)
  have l: "plus_joined (Some ?l) = []"
    using whitespace_becomes_plus [where lead = "[[CHR 0xC2, CHR 0xA0], '' '', '' '']"] b
    by simp
  have o: "o_keyword (only (Some ?k) (Some ?l)) = Some ?k"
    "o_location (only (Some ?k) (Some ?l)) = Some ?l"
    "(only (Some ?k) (Some ?l))\<lparr>o_keyword := None, o_location := None\<rparr> = only None None"
    by (simp_all add: only_def)
  note t = whitespace_becomes_plus [where obj = "only (Some ?k) (Some ?l)" and n = 50]
  have step: "url_params (Query (only (Some ?k) (Some ?l))) 50 =
     (if plus_joined (Some ?k) = [] then [] else [(''keywords'', plus_joined (Some ?k))]) @
     (if plus_joined (Some ?l) = [] then [] else [(''location'', plus_joined (Some ?l))]) @
     url_params (Query (only None None)) 50"
    using t [THEN conjunct2, THEN conjunct2, THEN conjunct1] by (simp only: o)
  have q: "url_params (Query (only None None)) 50 = [(''start'', ''50'')]"
    by (simp add: url_params_only plus_joined_def append_if_empty n)
  have p: "url_params (Query (only (Some ?k) (Some ?l))) 50 =
     [(''keywords'', ''mechanical+engineer+jobs''), (''start'', ''50'')]"
    unfolding step k l q by simp
  have s: "url_simple (''New'' @ '' '' @ ''York'') ''NY'' 25 =
       ''https://www.linkedin.com/jobs-guest/jobs/api/seeMoreJobPostings/search?keywords=New%20York&location=NY&start=25''"
    using whitespace_becomes_plus [where a = "''New''" and b = "''York''" and l = "''NY''"
        and n = 25]
    by (simp add: e n)
  from k p s show ?thesis by (simp only: simp_thms)
qed

text \<open>
  Claim C2 as stated fails: the space of the keyword is replaced by a plus sign, and is
  not in the URL as \<^verbatim>\<open>%20\<close>.
\<close>

theorem whitespace_becomes_plus_counterexample:
  "this_keyword (Query (only (Some ''mechanical engineer'') None)) = ''mechanical+engineer''
   \<and> url (Query (only (Some ''mechanical engineer'') None)) 0 =
     ''https://www.linkedin.com/jobs-guest/jobs/api/seeMoreJobPostings/search?keywords=mechanical%2Bengineer&start=0''"
  by code_simp

subsection \<open>Bounded attempts of the simple pipeline\<close>

lemma loop_simple_Raised:
  "attempts s < 5 \<Longrightarrow>
   fetchLinkedInJobs_loop k l (Raised # ts) s =
   fetchLinkedInJobs_loop k l ts
     (s\<lparr>attempts := attempts s + 1,
        backoffs_simple := backoffs_simple s @ [5000 * (attempts s + 1)]\<rparr>)"
  by simp

lemma loop_simple_page:
  "attempts s < 5 \<Longrightarrow> safeRequest r = Some (Markup lis) \<Longrightarrow> lis \<noteq> [] \<Longrightarrow>
   fetchLinkedInJobs_loop k l (Replied r # ts) s =
   fetchLinkedInJobs_loop k l ts
     (s\<lparr>requested_simple := requested_simple s @ [url_simple k l (start_simple s)],
        jobs := jobs s @ map job_simple lis,
        start_simple := start_simple s + 25,
        attempts := 0\<rparr>)"
  by (simp add: parseJobList_simple_Markup)

lemma loop_simple_exhausted: "\<not> attempts s < 5 \<Longrightarrow> fetchLinkedInJobs_loop k l ts s = Some s"
  by (cases ts) simp_all

lemma loop_simple_cap:
  "fetchLinkedInJobs_loop k l ts s = Some s' \<Longrightarrow> attempts s \<le> 5 \<Longrightarrow> attempts s' \<le> 5"
proof (induction ts arbitrary: s)
  case Nil
  then show ?case by (simp split: if_splits)
next
  case (Cons t ts)
  show ?case
  proof (cases "attempts s < 5")
    case False
    then show ?thesis using Cons.prems by simp
  next
    case True
    show ?thesis
    proof (cases t)
      case Raised
      then show ?thesis using Cons.prems True Cons.IH by (simp add: Let_def)
    next
      case (Replied r)
      then show ?thesis using Cons.prems True Cons.IH
        by (auto simp: Let_def split: option.splits payload.splits if_splits)
    qed
  qed
qed

lemma loop_simple_jobs_kept:
  "fetchLinkedInJobs_loop k l ts s = Some s' \<Longrightarrow> \<exists>more. jobs s' = jobs s @ more"
proof (induction ts arbitrary: s)
  case Nil
  then show ?case by (simp split: if_splits)
next
  case (Cons t ts)
  show ?case
  proof (cases "attempts s < 5")
    case False
    then show ?thesis using Cons.prems by simp
  next
    case True
    show ?thesis
    proof (cases t)
      case Raised
      then show ?thesis using Cons.prems True Cons.IH by (simp add: Let_def) force
    next
      case (Replied r)
      then show ?thesis using Cons.prems True Cons.IH
        by (auto simp: Let_def split: option.splits payload.splits if_splits) force+
    qed
  qed
qed

lemma five_raised:
  assumes "attempts s = 0"
  shows "fetchLinkedInJobs_loop k l (Raised # Raised # Raised # Raised # Raised # ts) s =
    Some (s\<lparr>attempts := 5,
            backoffs_simple := backoffs_simple s @ [5000, 10000, 15000, 20000, 25000]\<rparr>)"
  using assms by (simp add: loop_simple_exhausted)

text \<open>
  Claim C3. One counter \<open>attempts\<close> guards the loop of the simple pipeline. An error
  raised in a turn adds one to it and pauses 5000 ms times the new value; a page with
  records sets it back to 0; at 5 the loop is left with the state as it is, and the
  caller gets the records gathered so far. The counter never passes 5, and five errors
  in a row from 0 end the loop after pauses of 5, 10, 15, 20 and 25 seconds.
\<close>

theorem bounded_attempts:
  "(attempts s < 5 \<longrightarrow>
      fetchLinkedInJobs_loop k l (Raised # ts) s =
      fetchLinkedInJobs_loop k l ts
        (s\<lparr>attempts := attempts s + 1,
           backoffs_simple := backoffs_simple s @ [5000 * (attempts s + 1)]\<rparr>))
   \<and> (attempts s < 5 \<and> safeRequest r = Some (Markup lis) \<and> lis \<noteq> [] \<longrightarrow>
      fetchLinkedInJobs_loop k l (Replied r # ts) s =
      fetchLinkedInJobs_loop k l ts
        (s\<lparr>requested_simple := requested_simple s @ [url_simple k l (start_simple s)],
           jobs := jobs s @ map job_simple lis,
           start_simple := start_simple s + 25,
           attempts := 0\<rparr>))
   \<and> (attempts s = 5 \<longrightarrow> fetchLinkedInJobs_loop k l ts s = Some s)
   \<and> (attempts s \<le> 5 \<and> fetchLinkedInJobs_loop k l ts s = Some s' \<longrightarrow>
      attempts s' \<le> 5 \<and> (\<exists>more. jobs s' = jobs s @ more))
   \<and> (attempts s = 0 \<longrightarrow>
      fetchLinkedInJobs_loop k l (Raised # Raised # Raised # Raised # Raised # ts) s =
      Some (s\<lparr>attempts := 5,
              backoffs_simple := backoffs_simple s @ [5000, 10000, 15000, 20000, 25000]\<rparr>))
   \<and> (fetchLinkedInJobs_loop k l ts crawl_simple0 = Some s' \<longrightarrow>
      fetchLinkedInJobs k l ts = Some (jobs s'))"
  using loop_simple_Raised [of s k l ts] loop_simple_page [of s r lis k l ts]
    loop_simple_exhausted [of s k l ts] loop_simple_cap [of k l ts s s']
    loop_simple_jobs_kept [of k l ts s s'] five_raised [of s k l ts]
  by (simp add: fetchLinkedInJobs_def)

theorem bounded_attempts_witness:
  "fetchLinkedInJobs_loop ''nurse'' ''Oslo''
     [Replied (Reply 200 (Markup [li ''Nurse'' ''ACME''])), Raised, Raised, Raised, Raised, Raised,
      Replied (Reply 200 (Markup [li ''Cook'' ''ACME'']))]
     crawl_simple0 =
   Some \<lparr>jobs = [job_simple (li ''Nurse'' ''ACME'')], start_simple = 25, attempts = 5,
         requested_simple = [url_simple ''nurse'' ''Oslo'' 0],
         backoffs_simple = [5000, 10000, 15000, 20000, 25000]\<rparr>
   \<and> fetchLinkedInJobs ''nurse'' ''Oslo''
     [Replied (Reply 200 (Markup [li ''Nurse'' ''ACME''])), Raised, Raised, Raised, Raised, Raised,
      Replied (Reply 200 (Markup [li ''Cook'' ''ACME'']))] =
   Some [job_simple (li ''Nurse'' ''ACME'')]"
proof -
  let ?page = "Reply 200 (Markup [li ''Nurse'' ''ACME''])"
  let ?rest = "[Replied (Reply 200 (Markup [li ''Cook'' ''ACME'']))]"
  let ?s1 = "crawl_simple0\<lparr>requested_simple := requested_simple crawl_simple0 @
                 [url_simple ''nurse'' ''Oslo'' (start_simple crawl_simple0)],
               jobs := jobs crawl_simple0 @ map job_simple [li ''Nurse'' ''ACME''],
               start_simple := start_simple crawl_simple0 + 25,
               attempts := 0\<rparr>"
  have req: "safeRequest ?page = Some (Markup [li ''Nurse'' ''ACME''])"
    by (simp add: safeRequest_def axios_get_def validateStatus_default_def)
  have 1: "fetchLinkedInJobs_loop ''nurse'' ''Oslo''
             (Replied ?page # Raised # Raised # Raised # Raised # Raised # ?rest) crawl_simple0 =
           fetchLinkedInJobs_loop ''nurse'' ''Oslo''
             (Raised # Raised # Raised # Raised # Raised # ?rest) ?s1"
    using bounded_attempts [of crawl_simple0 "''nurse''" "''Oslo''"
        "Raised # Raised # Raised # Raised # Raised # ?rest" ?page "[li ''Nurse'' ''ACME'']"] req
    by (simp add: crawl_simple0_def)
  have 2: "fetchLinkedInJobs_loop ''nurse'' ''Oslo''
             (Raised # Raised # Raised # Raised # Raised # ?rest) ?s1 =
           Some (?s1\<lparr>attempts := 5,
                   backoffs_simple := backoffs_simple ?s1 @ [5000, 10000, 15000, 20000, 25000]\<rparr>)"
    using bounded_attempts [of ?s1 "''nurse''" "''Oslo''" ?rest] by simp
  have 3: "fetchLinkedInJobs_loop ''nurse'' ''Oslo''
     (Replied ?page # Raised # Raised # Raised # Raised # Raised # ?rest) crawl_simple0 =
   Some \<lparr>jobs = [job_simple (li ''Nurse'' ''ACME'')], start_simple = 25, attempts = 5,
         requested_simple = [url_simple ''nurse'' ''Oslo'' 0],
         backoffs_simple = [5000, 10000, 15000, 20000, 25000]\<rparr>"
    unfolding 1 2 by (simp add: crawl_simple0_def)
  show ?thesis
    unfolding fetchLinkedInJobs_def 3 by simp
qed

subsection \<open>Consecutive errors of the batch pipeline\<close>

lemma loop_failure:
  assumes "fetchJobBatch web r = Inl e"
  shows "getJobs_loop q web (r # rs) c =
     (if consecutiveErrors c + 1 \<ge> 3
      then Some (c\<lparr>requested := requested c @ [url q (start c)],
                   consecutiveErrors := consecutiveErrors c + 1\<rparr>)
      else getJobs_loop q web rs
             (c\<lparr>requested := requested c @ [url q (start c)],
                consecutiveErrors := consecutiveErrors c + 1,
                backoffs := backoffs c @ [2 ^ (consecutiveErrors c + 1) * 1000]\<rparr>))"
  using assms by (simp add: Let_def MAX_CONSECUTIVE_ERRORS_def)

lemma loop_empty:
  assumes "fetchJobBatch web r = Inr []"
  shows "getJobs_loop q web (r # rs) c = Some (c\<lparr>requested := requested c @ [url q (start c)]\<rparr>)"
  using assms by (simp add: Let_def)

lemma loop_page:
  assumes "fetchJobBatch web r = Inr js" "js \<noteq> []"
  shows "getJobs_loop q web (r # rs) c =
     (if this_limit q \<noteq> 0 \<and> this_limit q \<le> int (length (allJobs c @ js))
      then Some (c\<lparr>requested := requested c @ [url q (start c)],
                   allJobs := slice0 (allJobs c @ js) (this_limit q)\<rparr>)
      else getJobs_loop q web rs
             (c\<lparr>requested := requested c @ [url q (start c)],
                allJobs := allJobs c @ js,
                consecutiveErrors := 0,
                start := start c + 25\<rparr>))"
  using assms by (simp add: Let_def BATCH_SIZE_def)

lemma loop_page_more:
  assumes "fetchJobBatch web r = Inr js" "js \<noteq> []"
    "this_limit q = 0 \<or> int (length (allJobs c @ js)) < this_limit q"
  shows "getJobs_loop q web (r # rs) c =
     getJobs_loop q web rs
       (c\<lparr>requested := requested c @ [url q (start c)],
          allJobs := allJobs c @ js,
          consecutiveErrors := 0,
          start := start c + 25\<rparr>)"
  using assms by (auto simp: Let_def BATCH_SIZE_def)

lemma loop_page_limit:
  assumes "fetchJobBatch web r = Inr js" "js \<noteq> []"
    "this_limit q \<noteq> 0" "this_limit q \<le> int (length (allJobs c @ js))"
  shows "getJobs_loop q web (r # rs) c =
     Some (c\<lparr>requested := requested c @ [url q (start c)],
             allJobs := slice0 (allJobs c @ js) (this_limit q)\<rparr>)"
  using assms by (auto simp: Let_def)

lemma fetchJobBatch_failure:
  "fetchJobBatch web NoReply = Inl (AxiosError None)"
  "fetchJobBatch web (Reply 429 d) = Inl RateLimitReached"
  "status \<noteq> 200 \<Longrightarrow> status \<noteq> 429 \<Longrightarrow> fetchJobBatch web (Reply status d) = Inl (AxiosError (Some status))"
  "fetchJobBatch web (Reply 200 d) = Inr (parseJobList_batch web d)"
  by (simp_all add: fetchJobBatch_def axios_get_def)


lemma loop_requests:
  "getJobs_loop q web rs c = Some l \<Longrightarrow> length (requested c) < length (requested l)"
proof (induction rs arbitrary: c)
  case Nil
  then show ?case by simp
next
  case (Cons r rs)
  show ?case
  proof (cases "fetchJobBatch web r")
    case (Inl e)
    show ?thesis
    proof (cases "consecutiveErrors c + 1 \<ge> 3")
      case True
      then show ?thesis using Inl Cons.prems by (auto simp: loop_failure simp del: getJobs_loop.simps)
    next
      case False
      then have "getJobs_loop q web rs
             (c\<lparr>requested := requested c @ [url q (start c)],
                consecutiveErrors := consecutiveErrors c + 1,
                backoffs := backoffs c @ [2 ^ (consecutiveErrors c + 1) * 1000]\<rparr>) = Some l"
        using Inl Cons.prems(1) by (simp add: loop_failure del: getJobs_loop.simps)
      from Cons.IH [OF this] show ?thesis by simp
    qed
  next
    case (Inr js)
    show ?thesis
    proof (cases "js = []")
      case True
      then show ?thesis using Inr Cons.prems by (auto simp: loop_empty simp del: getJobs_loop.simps)
    next
      case False
      show ?thesis
      proof (cases "this_limit q \<noteq> 0 \<and> this_limit q \<le> int (length (allJobs c @ js))")
        case True
        then have "l = c\<lparr>requested := requested c @ [url q (start c)],
                   allJobs := slice0 (allJobs c @ js) (this_limit q)\<rparr>"
          using Inr False Cons.prems
          by (auto simp: loop_page simp del: getJobs_loop.simps split: if_splits)
        then show ?thesis by simp
      next
        case gt: False
        then have "getJobs_loop q web rs
             (c\<lparr>requested := requested c @ [url q (start c)],
                allJobs := allJobs c @ js,
                consecutiveErrors := 0,
                start := start c + 25\<rparr>) = Some l"
          using Inr False Cons.prems(1)
          by (auto simp: loop_page simp del: getJobs_loop.simps split: if_splits)
        from Cons.IH [OF this] show ?thesis by simp
      qed
    qed
  qed
qed

lemma slice0_take: "0 \<le> n \<Longrightarrow> slice0 xs n = take (nat n) xs"
  by (simp add: slice0_def)

lemma loop_limit:
  "getJobs_loop q web rs c = Some l \<Longrightarrow> 0 < this_limit q \<Longrightarrow>
   int (length (allJobs c)) \<le> this_limit q \<Longrightarrow> int (length (allJobs l)) \<le> this_limit q"
proof (induction rs arbitrary: c)
  case Nil
  then show ?case by simp
next
  case (Cons r rs)
  show ?case
  proof (cases "fetchJobBatch web r")
    case (Inl e)
    show ?thesis
    proof (cases "consecutiveErrors c + 1 \<ge> 3")
      case True
      then show ?thesis using Inl Cons.prems by (auto simp: loop_failure simp del: getJobs_loop.simps)
    next
      case False
      then have "getJobs_loop q web rs
             (c\<lparr>requested := requested c @ [url q (start c)],
                consecutiveErrors := consecutiveErrors c + 1,
                backoffs := backoffs c @ [2 ^ (consecutiveErrors c + 1) * 1000]\<rparr>) = Some l"
        using Inl Cons.prems(1) by (simp add: loop_failure del: getJobs_loop.simps)
      from Cons.IH [OF this] Cons.prems show ?thesis by simp
    qed
  next
    case (Inr js)
    show ?thesis
    proof (cases "js = []")
      case True
      then show ?thesis using Inr Cons.prems by (auto simp: loop_empty simp del: getJobs_loop.simps)
    next
      case False
      show ?thesis
      proof (cases "this_limit q \<le> int (length (allJobs c @ js))")
        case True
        then have "l = c\<lparr>requested := requested c @ [url q (start c)],
                   allJobs := slice0 (allJobs c @ js) (this_limit q)\<rparr>"
          using Inr False Cons.prems by (simp add: loop_page del: getJobs_loop.simps)
        then show ?thesis using Cons.prems(2) by (simp add: slice0_take)
      next
        case gt: False
        then have "getJobs_loop q web rs
             (c\<lparr>requested := requested c @ [url q (start c)],
                allJobs := allJobs c @ js,
                consecutiveErrors := 0,
                start := start c + 25\<rparr>) = Some l"
          using Inr False Cons.prems(1) by (simp add: loop_page del: getJobs_loop.simps)
        from Cons.IH [OF this] Cons.prems(2) gt show ?thesis by simp
      qed
    qed
  qed
qed


lemma getJobs_miss:
  assumes "fst (get_batch c (url q 0) now) = None"
  shows "getJobs q web c now rs later =
     (case getJobs_loop q web rs crawl0 of
        None \<Rightarrow> None
      | Some l \<Rightarrow>
          Some (allJobs l,
                if allJobs l \<noteq> []
                then set_batch (snd (get_batch c (url q 0) now)) (url q 0) (allJobs l) later
                else snd (get_batch c (url q 0) now),
                l))"
  using assms by (cases "get_batch c (url q 0) now") (simp add: getJobs_def split: option.split)

lemma getJobs_hit:
  assumes "fst (get_batch c (url q 0) now) = Some js"
  shows "getJobs q web c now rs later = Some (js, c, crawl0)"
  using assms
  by (auto simp: getJobs_def get_batch_def split: option.splits if_splits)

lemma get_batch_fresh: "get_batch JobCache_batch key now = (None, JobCache_batch)"
  by (simp add: get_batch_def JobCache_batch_def)

lemma three_failures:
  assumes "fetchJobBatch web f1 = Inl e1" "fetchJobBatch web f2 = Inl e2"
    "fetchJobBatch web f3 = Inl e3" "consecutiveErrors c = 0"
  shows "getJobs_loop q web (f1 # f2 # f3 # rs) c =
     Some (c\<lparr>requested := requested c @ [url q (start c), url q (start c), url q (start c)],
             consecutiveErrors := 3,
             backoffs := backoffs c @ [2000, 4000]\<rparr>)"
  using assms
  by (simp add: loop_failure [OF assms(1)] loop_failure [OF assms(2)] loop_failure [OF assms(3)]
      del: getJobs_loop.simps)

lemma two_one_two:
  assumes "fetchJobBatch web f1 = Inl e1" "fetchJobBatch web f2 = Inl e2"
    "fetchJobBatch web p = Inr js" "js \<noteq> []"
    "this_limit q = 0 \<or> int (length js) < this_limit q"
    "fetchJobBatch web f3 = Inl e3" "fetchJobBatch web f4 = Inl e4"
  shows "getJobs_loop q web (f1 # f2 # p # f3 # f4 # rs) crawl0 =
     getJobs_loop q web rs
       \<lparr>allJobs = js, start = 25, consecutiveErrors = 2,
        requested = [url q 0, url q 0, url q 0, url q 25, url q 25],
        backoffs = [2000, 4000, 2000, 4000]\<rparr>"
proof -
  let ?c2 = "crawl0\<lparr>requested := [url q 0, url q 0], consecutiveErrors := 2,
                   backoffs := [2000, 4000]\<rparr>"
  let ?c3 = "crawl0\<lparr>requested := [url q 0, url q 0, url q 0], allJobs := js,
                   consecutiveErrors := 0, backoffs := [2000, 4000], start := 25\<rparr>"
  have 1: "getJobs_loop q web (f1 # f2 # p # f3 # f4 # rs) crawl0 =
           getJobs_loop q web (p # f3 # f4 # rs) ?c2"
    by (simp add: loop_failure [OF assms(1)] loop_failure [OF assms(2)] crawl0_def
        numeral_2_eq_2 del: getJobs_loop.simps)
  have "this_limit q = 0 \<or> int (length (allJobs ?c2 @ js)) < this_limit q"
    using assms(5) by (simp add: crawl0_def)
  from loop_page_more [OF assms(3,4) this]
  have 2: "getJobs_loop q web (p # f3 # f4 # rs) ?c2 = getJobs_loop q web (f3 # f4 # rs) ?c3"
    by (simp add: crawl0_def del: getJobs_loop.simps)
  have 3: "getJobs_loop q web (f3 # f4 # rs) ?c3 =
     getJobs_loop q web rs
       \<lparr>allJobs = js, start = 25, consecutiveErrors = 2,
        requested = [url q 0, url q 0, url q 0, url q 25, url q 25],
        backoffs = [2000, 4000, 2000, 4000]\<rparr>"
    by (simp add: loop_failure [OF assms(6)] loop_failure [OF assms(7)] crawl0_def
        numeral_2_eq_2 del: getJobs_loop.simps)
  show ?thesis by (simp only: 1 2 3)
qed

text \<open>
  Claim C4, as the code has it. One counter \<open>consecutiveErrors\<close> counts the failures of
  \<^verbatim>\<open>fetchJobBatch\<close> in a row. A failure that leaves it below 3 pauses 2 to the power of
  the new value, times 1000 ms, and the loop goes on; the failure that brings it to 3
  leaves the loop at once, with no pause, and the records gathered before are kept. A
  page with records (below the limit) sets the counter back to 0, so two failures, a page
  and two failures leave the loop running with the counter at 2. A reply of status 429
  is raised as an error like any other, and the loop treats every error alike.
\<close>

theorem consecutive_errors:
  "(fetchJobBatch web r = Inl e \<and> consecutiveErrors c + 1 < 3 \<longrightarrow>
      getJobs_loop q web (r # rs) c =
      getJobs_loop q web rs
        (c\<lparr>requested := requested c @ [url q (start c)],
           consecutiveErrors := consecutiveErrors c + 1,
           backoffs := backoffs c @ [2 ^ (consecutiveErrors c + 1) * 1000]\<rparr>))
   \<and> (fetchJobBatch web r = Inl e \<and> consecutiveErrors c + 1 \<ge> 3 \<longrightarrow>
      getJobs_loop q web (r # rs) c =
      Some (c\<lparr>requested := requested c @ [url q (start c)],
              consecutiveErrors := consecutiveErrors c + 1\<rparr>))
   \<and> (fetchJobBatch web r = Inr js \<and> js \<noteq> [] \<and>
      (this_limit q = 0 \<or> int (length (allJobs c @ js)) < this_limit q) \<longrightarrow>
      getJobs_loop q web (r # rs) c =
      getJobs_loop q web rs
        (c\<lparr>requested := requested c @ [url q (start c)],
           allJobs := allJobs c @ js,
           consecutiveErrors := 0,
           start := start c + 25\<rparr>))
   \<and> (fetchJobBatch web f1 = Inl e1 \<and> fetchJobBatch web f2 = Inl e2 \<and>
      fetchJobBatch web r = Inr js \<and> js \<noteq> [] \<and>
      (this_limit q = 0 \<or> int (length js) < this_limit q) \<and>
      fetchJobBatch web f3 = Inl e3 \<and> fetchJobBatch web f4 = Inl e4 \<longrightarrow>
      getJobs_loop q web (f1 # f2 # r # f3 # f4 # rs) crawl0 =
      getJobs_loop q web rs
        \<lparr>allJobs = js, start = 25, consecutiveErrors = 2,
         requested = [url q 0, url q 0, url q 0, url q 25, url q 25],
         backoffs = [2000, 4000, 2000, 4000]\<rparr>)
   \<and> (fetchJobBatch web f1 = Inl e1 \<and> fetchJobBatch web f2 = Inl e2 \<and>
      fetchJobBatch web f3 = Inl e3 \<and> consecutiveErrors c = 0 \<longrightarrow>
      getJobs_loop q web (f1 # f2 # f3 # rs) c =
      Some (c\<lparr>requested := requested c @ [url q (start c), url q (start c), url q (start c)],
              consecutiveErrors := 3,
              backoffs := backoffs c @ [2000, 4000]\<rparr>))
   \<and> fetchJobBatch web (Reply 429 d) = Inl RateLimitReached
   \<and> (fetchJobBatch web r = Inl e \<and> fetchJobBatch web r' = Inl e' \<longrightarrow>
      getJobs_loop q web (r # rs) c = getJobs_loop q web (r' # rs) c)"
proof (intro conjI impI)
  assume a: "fetchJobBatch web r = Inl e \<and> consecutiveErrors c + 1 < 3"
  then show "getJobs_loop q web (r # rs) c =
      getJobs_loop q web rs
        (c\<lparr>requested := requested c @ [url q (start c)],
           consecutiveErrors := consecutiveErrors c + 1,
           backoffs := backoffs c @ [2 ^ (consecutiveErrors c + 1) * 1000]\<rparr>)"
    using loop_failure [of web r e q rs c] by simp
next
  assume a: "fetchJobBatch web r = Inl e \<and> consecutiveErrors c + 1 \<ge> 3"
  then show "getJobs_loop q web (r # rs) c =
      Some (c\<lparr>requested := requested c @ [url q (start c)],
              consecutiveErrors := consecutiveErrors c + 1\<rparr>)"
    using loop_failure [of web r e q rs c] by simp
next
  assume a: "fetchJobBatch web r = Inr js \<and> js \<noteq> [] \<and>
      (this_limit q = 0 \<or> int (length (allJobs c @ js)) < this_limit q)"
  then show "getJobs_loop q web (r # rs) c =
      getJobs_loop q web rs
        (c\<lparr>requested := requested c @ [url q (start c)],
           allJobs := allJobs c @ js,
           consecutiveErrors := 0,
           start := start c + 25\<rparr>)"
    using loop_page_more [of web r js q c rs] by blast
next
  assume "fetchJobBatch web f1 = Inl e1 \<and> fetchJobBatch web f2 = Inl e2 \<and>
      fetchJobBatch web r = Inr js \<and> js \<noteq> [] \<and>
      (this_limit q = 0 \<or> int (length js) < this_limit q) \<and>
      fetchJobBatch web f3 = Inl e3 \<and> fetchJobBatch web f4 = Inl e4"
  then show "getJobs_loop q web (f1 # f2 # r # f3 # f4 # rs) crawl0 =
      getJobs_loop q web rs
        \<lparr>allJobs = js, start = 25, consecutiveErrors = 2,
         requested = [url q 0, url q 0, url q 0, url q 25, url q 25],
         backoffs = [2000, 4000, 2000, 4000]\<rparr>"
    using two_one_two [of web f1 e1 f2 e2 r js q f3 e3 f4 e4 rs] by blast
next
  assume "fetchJobBatch web f1 = Inl e1 \<and> fetchJobBatch web f2 = Inl e2 \<and>
      fetchJobBatch web f3 = Inl e3 \<and> consecutiveErrors c = 0"
  then show "getJobs_loop q web (f1 # f2 # f3 # rs) c =
      Some (c\<lparr>requested := requested c @ [url q (start c), url q (start c), url q (start c)],
              consecutiveErrors := 3,
              backoffs := backoffs c @ [2000, 4000]\<rparr>)"
    using three_failures [of web f1 e1 f2 e2 f3 e3 c q rs] by blast
next
  show "fetchJobBatch web (Reply 429 d) = Inl RateLimitReached"
    by (rule fetchJobBatch_failure)
next
  assume "fetchJobBatch web r = Inl e \<and> fetchJobBatch web r' = Inl e'"
  then show "getJobs_loop q web (r # rs) c = getJobs_loop q web (r' # rs) c"
    using loop_failure [of web r e q rs c] loop_failure [of web r' e' q rs c] by simp
qed


lemma parse_one: "parseJobList_batch offline (Markup [li ''Nurse'' ''ACME'']) = [job_batch (li ''Nurse'' ''ACME'') []]"
  by (simp add: parseJobList_batch_def cheerio_load_def filter_Boolean_def parseJobList_item_def
      item_description_def li_def truthy_def trim_def js_space_def white_space_def utf8_len_def)

lemma parse_none: "parseJobList_batch web (Markup []) = []"
  by (simp add: parseJobList_batch_def cheerio_load_def filter_Boolean_def)

theorem consecutive_errors_witness:
  "getJobs_loop (Query (only None None)) offline
     [NoReply, Reply 429 Falsy, Reply 200 (Markup [li ''Nurse'' ''ACME'']), Reply 500 Falsy,
      NoReply, Reply 200 (Markup [])] crawl0 =
   Some \<lparr>allJobs = [job_batch (li ''Nurse'' ''ACME'') []], start = 25, consecutiveErrors = 2,
         requested = [url (Query (only None None)) 0, url (Query (only None None)) 0,
                      url (Query (only None None)) 0, url (Query (only None None)) 25,
                      url (Query (only None None)) 25, url (Query (only None None)) 25],
         backoffs = [2000, 4000, 2000, 4000]\<rparr>"
proof -
  have f: "fetchJobBatch offline NoReply = Inl (AxiosError None)"
    "fetchJobBatch offline (Reply 429 Falsy) = Inl RateLimitReached"
    "fetchJobBatch offline (Reply 500 Falsy) = Inl (AxiosError (Some 500))"
    "fetchJobBatch offline (Reply 200 (Markup [li ''Nurse'' ''ACME''])) =
       Inr [job_batch (li ''Nurse'' ''ACME'') []]"
    "fetchJobBatch offline (Reply 200 (Markup [])) = Inr []"
    by (simp_all add: fetchJobBatch_failure parse_one parse_none)
  have l: "this_limit (Query (only None None)) = 0"
    by (simp add: Query_def only_def number_or_0_def)
  show ?thesis
    using consecutive_errors [of offline "Reply 200 (Markup [li ''Nurse'' ''ACME''])" _ _
        "Query (only None None)" "[Reply 200 (Markup [])]" "[job_batch (li ''Nurse'' ''ACME'') []]"
        NoReply "AxiosError None" "Reply 429 Falsy" RateLimitReached
        "Reply 500 Falsy" "AxiosError (Some 500)" NoReply "AxiosError None"] f l
    by (simp add: loop_empty del: getJobs_loop.simps)
qed

text \<open>
  Claim C4 as stated fails for the third failure: it is counted, and no pause of
  \<open>2 ^ 3 * 1000\<close> ms follows it.
\<close>

theorem consecutive_errors_counterexample:
  "getJobs_loop (Query (only None None)) offline [NoReply, NoReply, NoReply] crawl0 =
   Some \<lparr>allJobs = [], start = 0, consecutiveErrors = 3,
         requested = [url (Query (only None None)) 0, url (Query (only None None)) 0,
                      url (Query (only None None)) 0],
         backoffs = [2000, 4000]\<rparr>"
  by (simp add: three_failures [where ?e1.0 = "AxiosError None" and ?e2.0 = "AxiosError None"
        and ?e3.0 = "AxiosError None"] fetchJobBatch_failure crawl0_def
      del: getJobs_loop.simps)

subsection \<open>The limit\<close>

lemma parse_many:
  "parseJobList_batch offline (Markup (replicate n (li ''Nurse'' ''ACME''))) =
   replicate n (job_batch (li ''Nurse'' ''ACME'') [])"
proof -
  have "trim (title_text (li ''Nurse'' ''ACME'')) \<noteq> [] \<and> trim (subtitle_text (li ''Nurse'' ''ACME'')) \<noteq> []"
    by (simp add: li_def trim_def js_space_def white_space_def utf8_len_def)
  moreover have "projr (item_description offline (li ''Nurse'' ''ACME'')) = []"
    by (simp add: item_description_def li_def truthy_def)
  ultimately show ?thesis
    by (simp add: parseJobList_batch_filter)
qed

text \<open>
  Claim C5. With a limit above 0, a page that brings the gathered records to the limit or
  beyond makes the loop keep exactly the first \<open>limit\<close> of them and stop; no run of the
  loop that starts within the limit ends above it. With a limit of 10, nothing cached and
  a first page of 25 records, \<^verbatim>\<open>getJobs\<close> returns 10 records after one request.
\<close>

theorem limit_truncates:
  "(0 < this_limit q \<and> fetchJobBatch web r = Inr js \<and> js \<noteq> [] \<and>
      this_limit q \<le> int (length (allJobs c @ js)) \<longrightarrow>
      getJobs_loop q web (r # rs) c =
      Some (c\<lparr>requested := requested c @ [url q (start c)],
              allJobs := take (nat (this_limit q)) (allJobs c @ js)\<rparr>)
      \<and> int (length (take (nat (this_limit q)) (allJobs c @ js))) = this_limit q)
   \<and> (0 < this_limit q \<and> int (length (allJobs c)) \<le> this_limit q \<and>
      getJobs_loop q web rs c = Some l \<longrightarrow> int (length (allJobs l)) \<le> this_limit q)
   \<and> (this_limit q = 10 \<and> length (parseJobList_batch web d) = 25 \<and>
      fst (get_batch cache0 (url q 0) now) = None \<longrightarrow>
      getJobs q web cache0 now (Reply 200 d # rs) later =
      Some (take 10 (parseJobList_batch web d),
            set_batch (snd (get_batch cache0 (url q 0) now)) (url q 0)
              (take 10 (parseJobList_batch web d)) later,
            crawl0\<lparr>requested := [url q 0], allJobs := take 10 (parseJobList_batch web d)\<rparr>)
      \<and> length (take 10 (parseJobList_batch web d)) = 10)"
proof (intro conjI impI)
  assume a: "0 < this_limit q \<and> fetchJobBatch web r = Inr js \<and> js \<noteq> [] \<and>
      this_limit q \<le> int (length (allJobs c @ js))"
  then show "getJobs_loop q web (r # rs) c =
      Some (c\<lparr>requested := requested c @ [url q (start c)],
              allJobs := take (nat (this_limit q)) (allJobs c @ js)\<rparr>)"
    using loop_page_limit [of web r js q c rs] by (simp add: slice0_take del: getJobs_loop.simps)
  from a have "nat (this_limit q) \<le> length (allJobs c @ js)" by linarith
  then have "length (take (nat (this_limit q)) (allJobs c @ js)) = nat (this_limit q)"
    by (simp only: length_take min_absorb2)
  then have "int (length (take (nat (this_limit q)) (allJobs c @ js))) = int (nat (this_limit q))"
    by (simp only:)
  also have "\<dots> = this_limit q" using a by simp
  finally show "int (length (take (nat (this_limit q)) (allJobs c @ js))) = this_limit q" .
next
  assume "0 < this_limit q \<and> int (length (allJobs c)) \<le> this_limit q \<and>
      getJobs_loop q web rs c = Some l"
  then show "int (length (allJobs l)) \<le> this_limit q"
    using loop_limit [of q web rs c l] by blast
next
  assume a: "this_limit q = 10 \<and> length (parseJobList_batch web d) = 25 \<and>
      fst (get_batch cache0 (url q 0) now) = None"
  let ?js = "parseJobList_batch web d"
  have ne: "?js \<noteq> []" using a by auto
  have f: "fetchJobBatch web (Reply 200 d) = Inr ?js" by (rule fetchJobBatch_failure)
  have "getJobs_loop q web (Reply 200 d # rs) crawl0 =
      Some (crawl0\<lparr>requested := requested crawl0 @ [url q (start crawl0)],
              allJobs := slice0 (allJobs crawl0 @ ?js) (this_limit q)\<rparr>)"
    by (rule loop_page_limit [OF f ne]) (use a in \<open>simp_all add: crawl0_def\<close>)
  then have "getJobs_loop q web (Reply 200 d # rs) crawl0 =
      Some (crawl0\<lparr>requested := [url q 0], allJobs := take 10 ?js\<rparr>)"
    using a by (simp add: crawl0_def slice0_take del: getJobs_loop.simps)
  then show "getJobs q web cache0 now (Reply 200 d # rs) later =
      Some (take 10 ?js,
            set_batch (snd (get_batch cache0 (url q 0) now)) (url q 0) (take 10 ?js) later,
            crawl0\<lparr>requested := [url q 0], allJobs := take 10 ?js\<rparr>)"
    using a ne by (simp add: getJobs_miss del: getJobs_loop.simps)
  from a show "length (take 10 ?js) = 10" by simp
qed

theorem limit_truncates_witness:
  "getJobs (Query ((only None None)\<lparr>o_limit := Some 10\<rparr>)) offline JobCache_batch 0
     [Reply 200 (Markup (replicate 25 (li ''Nurse'' ''ACME'')))] 9000 =
   Some (replicate 10 (job_batch (li ''Nurse'' ''ACME'') []),
         set_batch JobCache_batch (url (Query ((only None None)\<lparr>o_limit := Some 10\<rparr>)) 0)
           (replicate 10 (job_batch (li ''Nurse'' ''ACME'') [])) 9000,
         crawl0\<lparr>requested := [url (Query ((only None None)\<lparr>o_limit := Some 10\<rparr>)) 0],
                allJobs := replicate 10 (job_batch (li ''Nurse'' ''ACME'') [])\<rparr>)
   \<and> length (replicate 10 (job_batch (li ''Nurse'' ''ACME'') [])) = 10"
proof -
  have l: "this_limit (Query ((only None None)\<lparr>o_limit := Some 10\<rparr>)) = 10"
    by (simp add: Query_def only_def number_or_0_def)
  show ?thesis
    using limit_truncates [where q = "Query ((only None None)\<lparr>o_limit := Some 10\<rparr>)"
        and web = offline and d = "Markup (replicate 25 (li ''Nurse'' ''ACME''))"
        and ?cache0.0 = JobCache_batch and now = 0 and rs = "[]" and later = 9000] l
    by (simp add: parse_many get_batch_fresh)
qed

subsection \<open>A page without records\<close>

lemma loop_simple_empty:
  assumes "attempts s < 5" "safeRequest r = Some d" "parseJobList_simple d = []"
  shows "fetchLinkedInJobs_loop k l (Replied r # ts) s =
     Some (s\<lparr>requested_simple := requested_simple s @ [url_simple k l (start_simple s)]\<rparr>)"
  using assms by (cases d) (simp_all add: Let_def)

lemma safeRequest_200: "safeRequest (Reply 200 d) = Some d"
  by (simp add: safeRequest_def axios_get_def validateStatus_default_def)

lemma three_pages_batch:
  assumes "length (parseJobList_batch web d1) = 25" "length (parseJobList_batch web d2) = 25"
    "parseJobList_batch web d3 = []" "this_limit q = 0 \<or> 50 < this_limit q"
  shows "getJobs_loop q web (Reply 200 d1 # Reply 200 d2 # Reply 200 d3 # rs) crawl0 =
     Some \<lparr>allJobs = parseJobList_batch web d1 @ parseJobList_batch web d2, start = 50,
           consecutiveErrors = 0, requested = [url q 0, url q 25, url q 50], backoffs = []\<rparr>"
proof -
  let ?p1 = "parseJobList_batch web d1" and ?p2 = "parseJobList_batch web d2"
  let ?c1 = "\<lparr>allJobs = ?p1, start = 25, consecutiveErrors = 0, requested = [url q 0],
              backoffs = []\<rparr>"
  let ?c2 = "\<lparr>allJobs = ?p1 @ ?p2, start = 50, consecutiveErrors = 0,
              requested = [url q 0, url q 25], backoffs = []\<rparr>"
  have ne: "?p1 \<noteq> []" "?p2 \<noteq> []" using assms(1,2) by auto
  have f: "fetchJobBatch web (Reply 200 d1) = Inr ?p1" "fetchJobBatch web (Reply 200 d2) = Inr ?p2"
    "fetchJobBatch web (Reply 200 d3) = Inr []"
    by (simp_all add: fetchJobBatch_failure assms(3))
  have "this_limit q = 0 \<or> int (length (allJobs crawl0 @ ?p1)) < this_limit q"
    using assms(1,4) by (auto simp: crawl0_def)
  from loop_page_more [OF f(1) ne(1) this]
  have 1: "getJobs_loop q web (Reply 200 d1 # Reply 200 d2 # Reply 200 d3 # rs) crawl0 =
           getJobs_loop q web (Reply 200 d2 # Reply 200 d3 # rs) ?c1"
    by (simp add: crawl0_def del: getJobs_loop.simps)
  have "this_limit q = 0 \<or> int (length (allJobs ?c1 @ ?p2)) < this_limit q"
    using assms(1,2,4) by auto
  from loop_page_more [OF f(2) ne(2) this]
  have 2: "getJobs_loop q web (Reply 200 d2 # Reply 200 d3 # rs) ?c1 =
           getJobs_loop q web (Reply 200 d3 # rs) ?c2"
    by (simp del: getJobs_loop.simps)
  have 3: "getJobs_loop q web (Reply 200 d3 # rs) ?c2 =
           Some (?c2\<lparr>requested := requested ?c2 @ [url q (start ?c2)]\<rparr>)"
    by (rule loop_empty [OF f(3)])
  show ?thesis unfolding 1 2 3 by simp
qed

lemma three_pages_simple:
  assumes "length lis1 = 25" "length lis2 = 25" "safeRequest r3 = Some d3" "parseJobList_simple d3 = []"
  shows "fetchLinkedInJobs_loop k l
       (Replied (Reply 200 (Markup lis1)) # Replied (Reply 200 (Markup lis2)) # Replied r3 # ts)
       crawl_simple0 =
     Some \<lparr>jobs = map job_simple lis1 @ map job_simple lis2, start_simple = 50, attempts = 0,
           requested_simple = [url_simple k l 0, url_simple k l 25, url_simple k l 50],
           backoffs_simple = []\<rparr>"
proof -
  let ?s1 = "\<lparr>jobs = map job_simple lis1, start_simple = 25, attempts = 0,
              requested_simple = [url_simple k l 0], backoffs_simple = []\<rparr>"
  let ?s2 = "\<lparr>jobs = map job_simple lis1 @ map job_simple lis2, start_simple = 50, attempts = 0,
              requested_simple = [url_simple k l 0, url_simple k l 25], backoffs_simple = []\<rparr>"
  have ne: "lis1 \<noteq> []" "lis2 \<noteq> []" using assms(1,2) by auto
  have a0: "attempts crawl_simple0 < 5" by (simp add: crawl_simple0_def)
  from loop_simple_page [OF a0 safeRequest_200 ne(1)]
  have 1: "fetchLinkedInJobs_loop k l
       (Replied (Reply 200 (Markup lis1)) # Replied (Reply 200 (Markup lis2)) # Replied r3 # ts)
       crawl_simple0 =
     fetchLinkedInJobs_loop k l (Replied (Reply 200 (Markup lis2)) # Replied r3 # ts) ?s1"
    by (simp add: crawl_simple0_def del: fetchLinkedInJobs_loop.simps)
  have a1: "attempts ?s1 < 5" by simp
  from loop_simple_page [OF a1 safeRequest_200 ne(2)]
  have 2: "fetchLinkedInJobs_loop k l (Replied (Reply 200 (Markup lis2)) # Replied r3 # ts) ?s1 =
     fetchLinkedInJobs_loop k l (Replied r3 # ts) ?s2"
    by (simp del: fetchLinkedInJobs_loop.simps)
  have a2: "attempts ?s2 < 5" by simp
  from loop_simple_empty [OF a2 assms(3,4)]
  have 3: "fetchLinkedInJobs_loop k l (Replied r3 # ts) ?s2 =
     Some (?s2\<lparr>requested_simple := requested_simple ?s2 @ [url_simple k l (start_simple ?s2)]\<rparr>)" .
  show ?thesis unfolding 1 2 3 by simp
qed

text \<open>
  Claim C6. In both pipelines a page without records ends the loop at once: the state is
  returned with that one request logged, whatever replies would follow. With pages of
  25, 25 and 0 records the loop ends with the 50 records gathered, after three requests,
  and \<^verbatim>\<open>getJobs\<close> (nothing cached) and \<^verbatim>\<open>fetchLinkedInJobs\<close> return these 50 records (for
  the batch pipeline, with no limit or a limit above 50).
\<close>

theorem empty_page_ends:
  "(fetchJobBatch web r = Inr [] \<longrightarrow>
      getJobs_loop q web (r # rs) c = Some (c\<lparr>requested := requested c @ [url q (start c)]\<rparr>))
   \<and> (attempts s < 5 \<and> safeRequest r' = Some d \<and> parseJobList_simple d = [] \<longrightarrow>
      fetchLinkedInJobs_loop k l (Replied r' # ts) s =
      Some (s\<lparr>requested_simple := requested_simple s @ [url_simple k l (start_simple s)]\<rparr>))
   \<and> (length (parseJobList_batch web d1) = 25 \<and> length (parseJobList_batch web d2) = 25 \<and>
      parseJobList_batch web d3 = [] \<and> (this_limit q = 0 \<or> 50 < this_limit q) \<longrightarrow>
      getJobs_loop q web (Reply 200 d1 # Reply 200 d2 # Reply 200 d3 # rs) crawl0 =
      Some \<lparr>allJobs = parseJobList_batch web d1 @ parseJobList_batch web d2, start = 50,
            consecutiveErrors = 0, requested = [url q 0, url q 25, url q 50], backoffs = []\<rparr>
      \<and> length (parseJobList_batch web d1 @ parseJobList_batch web d2) = 50)
   \<and> (length lis1 = 25 \<and> length lis2 = 25 \<and> safeRequest r' = Some d \<and>
      parseJobList_simple d = [] \<longrightarrow>
      fetchLinkedInJobs_loop k l
        (Replied (Reply 200 (Markup lis1)) # Replied (Reply 200 (Markup lis2)) # Replied r' # ts)
        crawl_simple0 =
      Some \<lparr>jobs = map job_simple lis1 @ map job_simple lis2, start_simple = 50, attempts = 0,
            requested_simple = [url_simple k l 0, url_simple k l 25, url_simple k l 50],
            backoffs_simple = []\<rparr>
      \<and> length (map job_simple lis1 @ map job_simple lis2) = 50)
   \<and> (fst (get_batch cache0 (url q 0) now) = None \<and>
      length (parseJobList_batch web d1) = 25 \<and> length (parseJobList_batch web d2) = 25 \<and>
      parseJobList_batch web d3 = [] \<and> (this_limit q = 0 \<or> 50 < this_limit q) \<longrightarrow>
      getJobs q web cache0 now (Reply 200 d1 # Reply 200 d2 # Reply 200 d3 # rs) later =
      Some (parseJobList_batch web d1 @ parseJobList_batch web d2,
            set_batch (snd (get_batch cache0 (url q 0) now)) (url q 0)
              (parseJobList_batch web d1 @ parseJobList_batch web d2) later,
            \<lparr>allJobs = parseJobList_batch web d1 @ parseJobList_batch web d2, start = 50,
             consecutiveErrors = 0, requested = [url q 0, url q 25, url q 50], backoffs = []\<rparr>))
   \<and> (length lis1 = 25 \<and> length lis2 = 25 \<and> safeRequest r' = Some d \<and>
      parseJobList_simple d = [] \<longrightarrow>
      fetchLinkedInJobs k l
        (Replied (Reply 200 (Markup lis1)) # Replied (Reply 200 (Markup lis2)) # Replied r' # ts) =
      Some (map job_simple lis1 @ map job_simple lis2))"
proof -
  have top_batch: "getJobs q web cache0 now (Reply 200 d1 # Reply 200 d2 # Reply 200 d3 # rs) later =
      Some (parseJobList_batch web d1 @ parseJobList_batch web d2,
            set_batch (snd (get_batch cache0 (url q 0) now)) (url q 0)
              (parseJobList_batch web d1 @ parseJobList_batch web d2) later,
            \<lparr>allJobs = parseJobList_batch web d1 @ parseJobList_batch web d2, start = 50,
             consecutiveErrors = 0, requested = [url q 0, url q 25, url q 50], backoffs = []\<rparr>)"
    if a: "fst (get_batch cache0 (url q 0) now) = None \<and>
      length (parseJobList_batch web d1) = 25 \<and> length (parseJobList_batch web d2) = 25 \<and>
      parseJobList_batch web d3 = [] \<and> (this_limit q = 0 \<or> 50 < this_limit q)"
  proof -
    have ne: "parseJobList_batch web d1 @ parseJobList_batch web d2 \<noteq> []" using a by auto
    have "getJobs_loop q web (Reply 200 d1 # Reply 200 d2 # Reply 200 d3 # rs) crawl0 =
      Some \<lparr>allJobs = parseJobList_batch web d1 @ parseJobList_batch web d2, start = 50,
            consecutiveErrors = 0, requested = [url q 0, url q 25, url q 50], backoffs = []\<rparr>"
      by (rule three_pages_batch) (use a in auto)
    then show ?thesis
      using a ne unfolding getJobs_miss [of cache0 q now, OF a [THEN conjunct1]]
      by (simp del: getJobs_loop.simps)
  qed
  have top_simple: "fetchLinkedInJobs k l
        (Replied (Reply 200 (Markup lis1)) # Replied (Reply 200 (Markup lis2)) # Replied r' # ts) =
      Some (map job_simple lis1 @ map job_simple lis2)"
    if a: "length lis1 = 25 \<and> length lis2 = 25 \<and> safeRequest r' = Some d \<and>
      parseJobList_simple d = []"
  proof -
    have "fetchLinkedInJobs_loop k l
        (Replied (Reply 200 (Markup lis1)) # Replied (Reply 200 (Markup lis2)) # Replied r' # ts)
        crawl_simple0 =
      Some \<lparr>jobs = map job_simple lis1 @ map job_simple lis2, start_simple = 50, attempts = 0,
            requested_simple = [url_simple k l 0, url_simple k l 25, url_simple k l 50],
            backoffs_simple = []\<rparr>"
      by (rule three_pages_simple [where ?d3.0 = d]) (use a in auto)
    then show ?thesis unfolding fetchLinkedInJobs_def by (simp only: option.map_sel option.simps crawl_simple.simps)
  qed
  show ?thesis
    using loop_empty [of web r q rs c] loop_simple_empty [of s r' d k l ts]
      three_pages_batch [of web d1 d2 d3 q rs] three_pages_simple [of lis1 lis2 r' d k l ts]
      top_batch top_simple
    by simp
qed

theorem empty_page_ends_witness:
  "getJobs (Query (only None None)) offline JobCache_batch 0
     [Reply 200 (Markup (replicate 25 (li ''Nurse'' ''ACME''))),
      Reply 200 (Markup (replicate 25 (li ''Cook'' ''ACME''))),
      Reply 200 (Markup []),
      Reply 200 (Markup (replicate 25 (li ''Nurse'' ''ACME'')))] 9000 =
   Some (replicate 25 (job_batch (li ''Nurse'' ''ACME'') []) @
           replicate 25 (job_batch (li ''Cook'' ''ACME'') []),
         set_batch JobCache_batch (url (Query (only None None)) 0)
           (replicate 25 (job_batch (li ''Nurse'' ''ACME'') []) @
              replicate 25 (job_batch (li ''Cook'' ''ACME'') [])) 9000,
         \<lparr>allJobs = replicate 25 (job_batch (li ''Nurse'' ''ACME'') []) @
                      replicate 25 (job_batch (li ''Cook'' ''ACME'') []),
          start = 50, consecutiveErrors = 0,
          requested = [url (Query (only None None)) 0, url (Query (only None None)) 25,
                       url (Query (only None None)) 50],
          backoffs = []\<rparr>)
   \<and> fetchLinkedInJobs ''nurse'' ''Oslo''
     [Replied (Reply 200 (Markup (replicate 25 (li ''Nurse'' ''ACME'')))),
      Replied (Reply 200 (Markup (replicate 25 (li [] [])))),
      Replied (Reply 200 (Markup [])),
      Replied (Reply 200 (Markup (replicate 25 (li ''Nurse'' ''ACME''))))] =
   Some (replicate 25 (job_simple (li ''Nurse'' ''ACME'')) @ replicate 25 (job_simple (li [] [])))
   \<and> fetchLinkedInJobs_loop ''nurse'' ''Oslo''
     [Replied (Reply 200 (Markup (replicate 25 (li ''Nurse'' ''ACME'')))),
      Replied (Reply 200 (Markup (replicate 25 (li [] [])))),
      Replied (Reply 200 (Markup [])),
      Replied (Reply 200 (Markup (replicate 25 (li ''Nurse'' ''ACME''))))] crawl_simple0 =
   Some \<lparr>jobs = replicate 25 (job_simple (li ''Nurse'' ''ACME'')) @
                replicate 25 (job_simple (li [] [])),
         start_simple = 50, attempts = 0,
         requested_simple = [url_simple ''nurse'' ''Oslo'' 0, url_simple ''nurse'' ''Oslo'' 25,
                             url_simple ''nurse'' ''Oslo'' 50],
         backoffs_simple = []\<rparr>"
proof -
  have l: "this_limit (Query (only None None)) = 0"
    by (simp add: Query_def only_def number_or_0_def)
  have p: "parseJobList_batch offline (Markup (replicate 25 (li ''Cook'' ''ACME''))) =
           replicate 25 (job_batch (li ''Cook'' ''ACME'') [])"
    by (simp add: parseJobList_batch_filter li_def trim_def js_space_def white_space_def
        utf8_len_def item_description_def truthy_def)
  show ?thesis
    using empty_page_ends [where web = offline and q = "Query (only None None)"
        and ?d1.0 = "Markup (replicate 25 (li ''Nurse'' ''ACME''))"
        and ?d2.0 = "Markup (replicate 25 (li ''Cook'' ''ACME''))" and ?d3.0 = "Markup []"
        and rs = "[Reply 200 (Markup (replicate 25 (li ''Nurse'' ''ACME'')))]"
        and ?lis1.0 = "replicate 25 (li ''Nurse'' ''ACME'')"
        and ?lis2.0 = "replicate 25 (li [] [])" and r' = "Reply 200 (Markup [])"
        and d = "Markup []" and k = "''nurse''" and l = "''Oslo''"
        and ts = "[Replied (Reply 200 (Markup (replicate 25 (li ''Nurse'' ''ACME''))))]"
        and ?cache0.0 = JobCache_batch and now = 0 and later = 9000]
      l p
    by (simp add: parse_many parse_none safeRequest_200 parseJobList_simple_Markup
        get_batch_fresh)
qed

subsection \<open>Cache, description and filters\<close>

text \<open>
  Claim C7. After \<^verbatim>\<open>set(key, v)\<close> at time \<open>t\<close>, \<^verbatim>\<open>get(key)\<close> at time \<open>now\<close> gives \<open>v\<close> while less
  than the TTL has passed, and nothing once more than the TTL has passed (at exactly the
  TTL the simple cache gives nothing and the batch cache still gives \<open>v\<close>). The TTL is 30
  minutes for the simple cache, 60 minutes for the batch cache, and a second \<^verbatim>\<open>set\<close> of
  the key leaves the cache as if the first had not been.
\<close>

theorem cache_ttl:
  "(now - t < TTL c \<longrightarrow> get_simple (set_simple c key v t) key now = Some v)
   \<and> (now - t \<ge> TTL c \<longrightarrow> get_simple (set_simple c key v t) key now = None)
   \<and> (now - t \<le> TTL c \<longrightarrow>
        get_batch (set_batch c key v t) key now = (Some v, set_batch c key v t))
   \<and> (now - t > TTL c \<longrightarrow> fst (get_batch (set_batch c key v t) key now) = None)
   \<and> TTL JobCache_simple = 30 * 60 * 1000 \<and> TTL JobCache_batch = 60 * 60 * 1000
   \<and> TTL (set_simple c key v t) = TTL c \<and> TTL (set_batch c key v t) = TTL c
   \<and> set_simple (set_simple c key v t) key v' t' = set_simple c key v' t'
   \<and> set_batch (set_batch c key v t) key v' t' = set_batch c key v' t'"
  by (simp add: get_simple_def set_simple_def get_batch_def set_batch_def JobCache_simple_def
      JobCache_batch_def)

theorem cache_ttl_witness:
  "get_simple (set_simple JobCache_simple ''nurse-Oslo'' [job_simple (li ''Nurse'' ''ACME'')] 1000)
     ''nurse-Oslo'' 1800999 = Some [job_simple (li ''Nurse'' ''ACME'')]
   \<and> get_simple (set_simple JobCache_simple ''nurse-Oslo'' [job_simple (li ''Nurse'' ''ACME'')] 1000)
     ''nurse-Oslo'' 1801000 = None
   \<and> fst (get_batch (set_batch JobCache_batch ''u'' [job_simple (li ''Nurse'' ''ACME'')] 1000)
     ''u'' 3601000) = Some [job_simple (li ''Nurse'' ''ACME'')]
   \<and> fst (get_batch (set_batch JobCache_batch ''u'' [job_simple (li ''Nurse'' ''ACME'')] 1000)
     ''u'' 3601001) = None"
proof -
  have t: "TTL JobCache_simple = 1800000" "TTL JobCache_batch = 3600000"
    by (simp_all add: JobCache_simple_def JobCache_batch_def)
  show ?thesis
    using cache_ttl [of 1800999 1000 JobCache_simple "''nurse-Oslo''" "[job_simple (li ''Nurse'' ''ACME'')]"]
      cache_ttl [of 1801000 1000 JobCache_simple "''nurse-Oslo''" "[job_simple (li ''Nurse'' ''ACME'')]"]
      cache_ttl [of 3601000 1000 JobCache_batch "''u''" "[job_simple (li ''Nurse'' ''ACME'')]"]
      cache_ttl [of 3601001 1000 JobCache_batch "''u''" "[job_simple (li ''Nurse'' ''ACME'')]"]
    by (simp add: t)
qed

lemma fetchJobDescription_failed:
  "fetchJobDescription_try (web u) = Inl e \<Longrightarrow> fetchJobDescription web u = Inr not_available"
  by (simp add: fetchJobDescription_def)

text \<open>
  Claim C8. \<^verbatim>\<open>fetchJobDescription\<close> returns the sentinel whenever its \<^verbatim>\<open>try\<close> block raises
  (no reply, a status outside 2xx, a payload that cannot be loaded) and whenever both
  selections are empty after trimming, which takes away all white space of JavaScript
  (an empty payload has two empty selections); it returns a string in every case.
\<close>

theorem description_sentinel:
  "(fetchJobDescription_try (web u) = Inl e \<longrightarrow>
      fetchJobDescription web u = Inr ''Description not available'')
   \<and> (web u = NoReply \<longrightarrow> fetchJobDescription web u = Inr ''Description not available'')
   \<and> (web u = Reply status p \<and> \<not> (200 \<le> status \<and> status < 300) \<longrightarrow>
      fetchJobDescription web u = Inr ''Description not available'')
   \<and> (web u = Reply status Unparsable \<longrightarrow>
      fetchJobDescription web u = Inr ''Description not available'')
   \<and> (web u = Reply status Falsy \<longrightarrow>
      fetchJobDescription web u = Inr ''Description not available'')
   \<and> (web u = Reply status (Markup page) \<and> trim (primary_text page) = [] \<and>
      trim (secondary_text page) = [] \<longrightarrow>
      fetchJobDescription web u = Inr ''Description not available'')
   \<and> (\<exists>d. fetchJobDescription web u = Inr d)"
proof (intro conjI impI)
  show "\<exists>d. fetchJobDescription web u = Inr d" by (rule fetchJobDescription_returns)
qed (auto simp: fetchJobDescription_def fetchJobDescription_try_def axios_get_def
      validateStatus_default_def cheerio_load_def not_available_def no_detail_def trim_def
      Let_def)

theorem description_sentinel_witness:
  "fetchJobDescription detail_web ''a'' = Inr ''Description not available''
   \<and> fetchJobDescription detail_web ''b'' = Inr ''Description not available''
   \<and> fetchJobDescription detail_web ''c'' = Inr ''Description not available''
   \<and> fetchJobDescription detail_web ''e'' = Inr ''Description not available''"
proof -
  let ?page = "\<lparr>primary_text = [CHR 0xC2, CHR 0xA0, CHR '' ''], secondary_text = [CHR 0x0A]\<rparr>"
  have t: "trim (primary_text ?page) = []" "trim (secondary_text ?page) = []"
    by (simp_all add: trim_def js_space_def white_space_def utf8_len_def)
  have w: "detail_web ''a'' = Reply 200 (Markup ?page)"
    "detail_web ''b'' = Reply 404 (Markup \<lparr>primary_text = ''About the job'', secondary_text = []\<rparr>)"
    "detail_web ''c'' = Reply 200 Unparsable" "detail_web ''e'' = NoReply"
    by (simp_all add: detail_web_def)
  have "fetchJobDescription detail_web ''a'' = Inr ''Description not available''"
    using description_sentinel [where web = detail_web and u = "''a''" and status = 200
        and page = ?page] w(1) t by blast
  moreover have "fetchJobDescription detail_web ''b'' = Inr ''Description not available''"
    using description_sentinel [where web = detail_web and u = "''b''" and status = 404
        and p = "Markup \<lparr>primary_text = ''About the job'', secondary_text = []\<rparr>"] w(2)
    by simp
  moreover have "fetchJobDescription detail_web ''c'' = Inr ''Description not available''"
    using description_sentinel [where web = detail_web and u = "''c''" and status = 200] w(3)
    by blast
  moreover have "fetchJobDescription detail_web ''e'' = Inr ''Description not available''"
    using description_sentinel [where web = detail_web and u = "''e''"] w(4) by blast
  ultimately show ?thesis by (simp only: simp_thms)
qed

lemma description_found: "fetchJobDescription detail_web ''d'' = Inr ''About the job''"
  by (simp add: detail_web_def fetchJobDescription_def fetchJobDescription_try_def axios_get_def
      validateStatus_default_def cheerio_load_def trim_def js_space_def white_space_def utf8_len_def not_available_def)

text \<open>
  Claim C9 at \<^verbatim>\<open>experienceLevel = "constructor"\<close>: the value is not a key of the table, but
  the lookup finds the member \<^verbatim>\<open>constructor\<close> that the table inherits, which is truthy,
  so the parameter \<^verbatim>\<open>f_E\<close> is in the URL.
\<close>

theorem constructor_not_omitted:
  "url (Query ((only None None)\<lparr>o_experienceLevel := Some ''constructor''\<rparr>)) 0 =
     ''https://www.linkedin.com/jobs-guest/jobs/api/seeMoreJobPostings/search?f_E=function+Object%28%29+%7B+%5Bnative+code%5D+%7D&start=0''"
  by code_simp

lemma unrecognized_omitted:
  "map_of table key = None \<Longrightarrow> map_of Object_prototype key = None \<Longrightarrow>
   append_if name (lookup_or_empty table key) = []"
  by (simp add: lookup_or_empty_def append_if_def truthy_val_def)

lemma manager_omitted:
  "url (Query ((only None None)\<lparr>o_experienceLevel := Some ''manager''\<rparr>)) 0 =
     ''https://www.linkedin.com/jobs-guest/jobs/api/seeMoreJobPostings/search?start=0''"
  by code_simp

lemma senior_any_case:
  "url (Query ((only None None)\<lparr>o_experienceLevel := Some ''SeNiOr''\<rparr>)) 0 =
     ''https://www.linkedin.com/jobs-guest/jobs/api/seeMoreJobPostings/search?f_E=4&start=0''"
  by code_simp

subsection \<open>What a crawl stores\<close>

lemma get_batch_miss:
  assumes "fst (get_batch c key now) = None"
  shows "snd (get_batch c key now) = c\<lparr>cache := (cache c)(key := None)\<rparr>"
proof (cases "cache c key")
  case None
  then have "(cache c)(key := None) = cache c" by (simp add: fun_upd_idem)
  then show ?thesis using None by (simp add: get_batch_def)
next
  case (Some item)
  then show ?thesis using assms by (simp add: get_batch_def split: if_splits)
qed

lemma get_batch_deleted:
  "get_batch (c\<lparr>cache := (cache c)(key := None)\<rparr>) key now =
   (None, c\<lparr>cache := (cache c)(key := None)\<rparr>)"
  by (simp add: get_batch_def)

lemma getJobs_fetches:
  assumes "fst (get_batch c (url q 0) now) = None" "getJobs q web c now rs later = Some r"
  shows "requested (snd (snd r)) \<noteq> []"
proof -
  obtain l where l: "getJobs_loop q web rs crawl0 = Some l" and r: "snd (snd r) = l"
    using assms by (auto simp: getJobs_miss split: option.splits)
  from loop_requests [OF l] show ?thesis using r by auto
qed

text \<open>
  Claim C10, as the code has it. When the lookup misses and the crawl gathers nothing,
  \<^verbatim>\<open>getJobs\<close> stores nothing: the cache it leaves is the one the lookup left, which is
  the cache before but for an expired entry of the key, which the lookup deleted. The key
  then has no entry, so every later lookup misses and the next identical query makes a
  request. When the crawl gathers records, they are stored under \<^verbatim>\<open>url(0)\<close> with the
  time of the store; when the lookup hits, the cache is unchanged.
\<close>

theorem empty_crawl_not_cached:
  "(fst (get_batch c (url q 0) now) = None \<and> getJobs_loop q web rs crawl0 = Some l \<and>
      allJobs l = [] \<longrightarrow>
      getJobs q web c now rs later = Some ([], c\<lparr>cache := (cache c)(url q 0 := None)\<rparr>, l)
      \<and> (cache c (url q 0) = None \<longrightarrow> c\<lparr>cache := (cache c)(url q 0 := None)\<rparr> = c)
      \<and> (\<forall>now'. get_batch (c\<lparr>cache := (cache c)(url q 0 := None)\<rparr>) (url q 0) now' =
            (None, c\<lparr>cache := (cache c)(url q 0 := None)\<rparr>))
      \<and> (\<forall>now' rs' later' r.
            getJobs q web (c\<lparr>cache := (cache c)(url q 0 := None)\<rparr>) now' rs' later' = Some r \<longrightarrow>
            requested (snd (snd r)) \<noteq> []))
   \<and> (fst (get_batch c (url q 0) now) = None \<and> getJobs_loop q web rs crawl0 = Some l \<and>
      allJobs l \<noteq> [] \<longrightarrow>
      getJobs q web c now rs later =
      Some (allJobs l,
            set_batch (c\<lparr>cache := (cache c)(url q 0 := None)\<rparr>) (url q 0) (allJobs l) later, l)
      \<and> cache (set_batch (c\<lparr>cache := (cache c)(url q 0 := None)\<rparr>) (url q 0) (allJobs l) later)
           (url q 0) = Some \<lparr>data = allJobs l, timestamp = later\<rparr>)
   \<and> (fst (get_batch c (url q 0) now) = Some js \<longrightarrow>
      getJobs q web c now rs later = Some (js, c, crawl0))"
proof (intro conjI impI allI)
  assume a: "fst (get_batch c (url q 0) now) = None \<and> getJobs_loop q web rs crawl0 = Some l \<and>
      allJobs l = []"
  then show "getJobs q web c now rs later = Some ([], c\<lparr>cache := (cache c)(url q 0 := None)\<rparr>, l)"
    by (simp add: getJobs_miss get_batch_miss)
next
  assume "cache c (url q 0) = None"
  then have "(cache c)(url q 0 := None) = cache c" by (simp add: fun_upd_idem)
  then show "c\<lparr>cache := (cache c)(url q 0 := None)\<rparr> = c" by simp
next
  fix now'
  show "get_batch (c\<lparr>cache := (cache c)(url q 0 := None)\<rparr>) (url q 0) now' =
            (None, c\<lparr>cache := (cache c)(url q 0 := None)\<rparr>)"
    by (rule get_batch_deleted)
next
  fix now' rs' later' r
  assume "getJobs q web (c\<lparr>cache := (cache c)(url q 0 := None)\<rparr>) now' rs' later' = Some r"
  then show "requested (snd (snd r)) \<noteq> []"
    by (rule getJobs_fetches [rotated]) (simp add: get_batch_deleted)
next
  assume a: "fst (get_batch c (url q 0) now) = None \<and> getJobs_loop q web rs crawl0 = Some l \<and>
      allJobs l \<noteq> []"
  then show "getJobs q web c now rs later =
      Some (allJobs l,
            set_batch (c\<lparr>cache := (cache c)(url q 0 := None)\<rparr>) (url q 0) (allJobs l) later, l)"
    by (simp add: getJobs_miss get_batch_miss)
  show "cache (set_batch (c\<lparr>cache := (cache c)(url q 0 := None)\<rparr>) (url q 0) (allJobs l) later)
           (url q 0) = Some \<lparr>data = allJobs l, timestamp = later\<rparr>"
    by (simp add: set_batch_def)
next
  assume "fst (get_batch c (url q 0) now) = Some js"
  then show "getJobs q web c now rs later = Some (js, c, crawl0)"
    by (rule getJobs_hit)
qed

theorem empty_crawl_not_cached_witness:
  "getJobs (Query (only None None)) offline JobCache_batch 0 [Reply 200 (Markup [])] 5000 =
     Some ([], JobCache_batch, crawl0\<lparr>requested := [url (Query (only None None)) 0]\<rparr>)
   \<and> getJobs (Query (only None None)) offline JobCache_batch 0
       [Reply 200 (Markup [li ''Nurse'' ''ACME'']), Reply 200 (Markup [])] 5000 =
     Some ([job_batch (li ''Nurse'' ''ACME'') []],
           set_batch JobCache_batch (url (Query (only None None)) 0)
             [job_batch (li ''Nurse'' ''ACME'') []] 5000,
           \<lparr>allJobs = [job_batch (li ''Nurse'' ''ACME'') []], start = 25, consecutiveErrors = 0,
            requested = [url (Query (only None None)) 0, url (Query (only None None)) 25],
            backoffs = []\<rparr>)"
proof -
  let ?q = "Query (only None None)"
  have l: "this_limit ?q = 0" by (simp add: Query_def only_def number_or_0_def)
  have e: "JobCache_batch\<lparr>cache := (cache JobCache_batch)(url ?q 0 := None)\<rparr> = JobCache_batch"
    by (simp add: JobCache_batch_def)
  have 1: "getJobs_loop ?q offline [Reply 200 (Markup [])] crawl0 =
           Some (crawl0\<lparr>requested := [url ?q 0]\<rparr>)"
    by (simp add: loop_empty fetchJobBatch_failure parse_none crawl0_def del: getJobs_loop.simps)
  have "this_limit ?q = 0 \<or>
        int (length (allJobs crawl0 @ [job_batch (li ''Nurse'' ''ACME'') []])) < this_limit ?q"
    using l by simp
  from loop_page_more [of offline "Reply 200 (Markup [li ''Nurse'' ''ACME''])" _ ?q crawl0, OF _ _ this]
  have 2: "getJobs_loop ?q offline [Reply 200 (Markup [li ''Nurse'' ''ACME'']), Reply 200 (Markup [])]
             crawl0 =
           Some \<lparr>allJobs = [job_batch (li ''Nurse'' ''ACME'') []], start = 25, consecutiveErrors = 0,
                 requested = [url ?q 0, url ?q 25], backoffs = []\<rparr>"
    by (simp add: loop_empty fetchJobBatch_failure parse_none parse_one crawl0_def
        del: getJobs_loop.simps)
  have m: "fst (get_batch JobCache_batch (url ?q 0) 0) = None"
    by (simp add: get_batch_fresh)
  have 3: "allJobs (crawl0\<lparr>requested := [url ?q 0]\<rparr>) = []"
    by (simp add: crawl0_def)
  have "getJobs ?q offline JobCache_batch 0 [Reply 200 (Markup [])] 5000 =
     Some ([], JobCache_batch, crawl0\<lparr>requested := [url ?q 0]\<rparr>)"
    using empty_crawl_not_cached [of JobCache_batch ?q 0 offline "[Reply 200 (Markup [])]"
        "crawl0\<lparr>requested := [url ?q 0]\<rparr>" 5000] m 1 3
    by (simp only: e simp_thms)
  moreover have "getJobs ?q offline JobCache_batch 0
       [Reply 200 (Markup [li ''Nurse'' ''ACME'']), Reply 200 (Markup [])] 5000 =
     Some ([job_batch (li ''Nurse'' ''ACME'') []],
           set_batch JobCache_batch (url ?q 0) [job_batch (li ''Nurse'' ''ACME'') []] 5000,
           \<lparr>allJobs = [job_batch (li ''Nurse'' ''ACME'') []], start = 25, consecutiveErrors = 0,
            requested = [url ?q 0, url ?q 25], backoffs = []\<rparr>)"
    using empty_crawl_not_cached [of JobCache_batch ?q 0 offline
        "[Reply 200 (Markup [li ''Nurse'' ''ACME'']), Reply 200 (Markup [])]"
        "\<lparr>allJobs = [job_batch (li ''Nurse'' ''ACME'') []], start = 25, consecutiveErrors = 0,
          requested = [url ?q 0, url ?q 25], backoffs = []\<rparr>" 5000] m 2
    by (simp add: e del: getJobs_loop.simps)
  ultimately show ?thesis by simp
qed

text \<open>
  Claim C10 as stated fails on the frame: with an expired entry under the key, a crawl
  that gathers nothing leaves a cache that differs from the one it found.
\<close>

theorem empty_crawl_not_cached_counterexample:
  "getJobs (Query (only None None)) offline
     (set_batch JobCache_batch (url (Query (only None None)) 0)
        [job_batch (li ''Nurse'' ''ACME'') []] 0)
     3600001 [Reply 200 (Markup [])] 3605000 =
     Some ([], JobCache_batch, crawl0\<lparr>requested := [url (Query (only None None)) 0]\<rparr>)
   \<and> cache (set_batch JobCache_batch (url (Query (only None None)) 0)
        [job_batch (li ''Nurse'' ''ACME'') []] 0) (url (Query (only None None)) 0) =
     Some \<lparr>data = [job_batch (li ''Nurse'' ''ACME'') []], timestamp = 0\<rparr>
   \<and> cache JobCache_batch (url (Query (only None None)) 0) = None"
proof -
  let ?q = "Query (only None None)"
  let ?c = "set_batch JobCache_batch (url ?q 0) [job_batch (li ''Nurse'' ''ACME'') []] 0"
  have g: "get_batch ?c (url ?q 0) 3600001 = (None, JobCache_batch)"
    by (simp add: get_batch_def set_batch_def JobCache_batch_def)
  have 1: "getJobs_loop ?q offline [Reply 200 (Markup [])] crawl0 =
           Some (crawl0\<lparr>requested := [url ?q 0]\<rparr>)"
    by (simp add: loop_empty fetchJobBatch_failure parse_none crawl0_def del: getJobs_loop.simps)
  have "getJobs ?q offline ?c 3600001 [Reply 200 (Markup [])] 3605000 =
     Some ([], JobCache_batch, crawl0\<lparr>requested := [url ?q 0]\<rparr>)"
    unfolding getJobs_miss [of ?c ?q 3600001, unfolded g, simplified] 1
    by (simp add: crawl0_def)
  then show ?thesis by (simp add: set_batch_def JobCache_batch_def)
qed

end
